theory Spec2Isabelle
  imports Complex_Main "HOL-Library.Log_Nat"
begin

section \<open>Python values held by a table cell or a criteria entry\<close>

text \<open>
  The evaluator of the GL reconciliation checker (\<^verbatim>\<open>evaluate\<close> in
  \<^verbatim>\<open>streamlit_gl_recon_simple.py\<close> and in \<^verbatim>\<open>streamlit_app.py\<close>) reads every field
  of a row with \<^verbatim>\<open>r.get(...)\<close> and every criterion with \<^verbatim>\<open>crit.get(..., default)\<close>
  and coerces the value it finds with \<^verbatim>\<open>float\<close>, \<^verbatim>\<open>int\<close>, \<^verbatim>\<open>str\<close>, \<^verbatim>\<open>bool\<close>,
  \<^verbatim>\<open>to_bool\<close> or \<^verbatim>\<open>parse_date_safe\<close>. A cell is therefore modelled as a dynamically
  typed scalar.

  A float is an IEEE binary64 value: a finite value (\<open>Fin 0\<close> is the positive zero),
  the negative zero, one of the two infinities, or NaN (the marker pandas uses for a
  blank cell). The cells of a frame hold doubles; \<open>Fin\<close> takes any rational, and every
  arithmetic operation rounds its exact result to a double. A string is a list of
  characters, each read as a code point below 256. A timestamp cell is modelled by its
  calendar date.
\<close>

datatype pyfloat = Fin rat | NegZero | PosInf | NegInf | NaN

datatype date = Date (year: int) (month: int) (day: int)

datatype pyval =
    PNone
  | PBool bool
  | PInt int
  | PFloat pyfloat
  | PStr string
  | PDate date

datatype pyerr = ValueError | TypeError | OverflowError

text \<open>Sequencing of computations that may raise: the first exception is the result.\<close>

definition bnd :: "pyerr + 'a \<Rightarrow> ('a \<Rightarrow> pyerr + 'b) \<Rightarrow> pyerr + 'b" where
  "bnd m f = (case m of Inl e \<Rightarrow> Inl e | Inr v \<Rightarrow> f v)"

subsection \<open>Rounding to the nearest double\<close>

text \<open>
  The arithmetic of a float computes the exact result and rounds it to the nearest
  binary64 value, ties to the even significand: 53 significant bits, the smallest unit
  \<open>2 powi (- 1074)\<close>, and an infinity from \<open>2 ^ 1024\<close> on. A result that rounds to
  zero keeps its sign.
\<close>

text \<open>The exponent \<open>k\<close> with \<open>2 powi k \<le> q < 2 powi (k + 1)\<close>, for a positive \<open>q\<close>.\<close>

definition ilog2 :: "rat \<Rightarrow> int" where
  "ilog2 q = (let (n, d) = quotient_of q;
                  e = bitlen n - bitlen d
              in if 2 powi e \<le> q then e else e - 1)"

definition round_half_even :: "rat \<Rightarrow> int" where
  "round_half_even x = (let f = \<lfloor>x\<rfloor>; r = x - of_int f in
     if r < 1 / 2 then f else if 1 / 2 < r then f + 1 else if even f then f else f + 1)"

definition round_double :: "rat \<Rightarrow> pyfloat" where
  "round_double q =
     (if q = 0 then Fin 0
      else let a = \<bar>q\<bar>;
               e = max (ilog2 a - 52) (- 1074);
               m = round_half_even (a / 2 powi e);
               r = of_int m * 2 powi e
           in if 2 ^ 1024 \<le> r then (if 0 < q then PosInf else NegInf)
              else if m = 0 then (if 0 < q then Fin 0 else NegZero)
              else Fin (if 0 < q then r else - r))"

subsection \<open>Float operations used by the tie-out check\<close>

text \<open>The value of a finite float, its sign bit, and the tests for a zero and an infinity.\<close>

definition fval :: "pyfloat \<Rightarrow> rat" where
  "fval a = (case a of Fin x \<Rightarrow> x | _ \<Rightarrow> 0)"

definition fneg :: "pyfloat \<Rightarrow> bool" where
  "fneg a = (case a of Fin x \<Rightarrow> x < 0 | NegZero \<Rightarrow> True | NegInf \<Rightarrow> True | _ \<Rightarrow> False)"

definition is_zero :: "pyfloat \<Rightarrow> bool" where
  "is_zero a = (a = Fin 0 \<or> a = NegZero)"

definition is_inf :: "pyfloat \<Rightarrow> bool" where
  "is_inf a = (a = PosInf \<or> a = NegInf)"

text \<open>
  \<^verbatim>\<open>a - b\<close>. An infinity minus itself is NaN; a zero difference is the positive zero
  unless it is the negative zero minus the positive zero.
\<close>

definition fsub :: "pyfloat \<Rightarrow> pyfloat \<Rightarrow> pyfloat" where
  "fsub a b =
     (if a = NaN \<or> b = NaN then NaN
      else if a = PosInf then (if b = PosInf then NaN else PosInf)
      else if a = NegInf then (if b = NegInf then NaN else NegInf)
      else if b = PosInf then NegInf
      else if b = NegInf then PosInf
      else if a = NegZero \<and> b = Fin 0 then NegZero
      else round_double (fval a - fval b))"

text \<open>
  \<^verbatim>\<open>a * b\<close>. An infinity times a zero is NaN; the sign of every other product is the
  exclusive or of the signs.
\<close>

definition fmul :: "pyfloat \<Rightarrow> pyfloat \<Rightarrow> pyfloat" where
  "fmul a b =
     (if a = NaN \<or> b = NaN then NaN
      else if is_inf a \<or> is_inf b
        then (if is_zero a \<or> is_zero b then NaN
              else if fneg a \<noteq> fneg b then NegInf else PosInf)
      else if is_zero a \<or> is_zero b
        then (if fneg a \<noteq> fneg b then NegZero else Fin 0)
      else round_double (fval a * fval b))"

text \<open>\<^verbatim>\<open>abs(a)\<close>.\<close>

definition fabs :: "pyfloat \<Rightarrow> pyfloat" where
  "fabs a = (case a of
      Fin x \<Rightarrow> Fin \<bar>x\<bar>
    | NegZero \<Rightarrow> Fin 0
    | PosInf \<Rightarrow> PosInf
    | NegInf \<Rightarrow> PosInf
    | NaN \<Rightarrow> NaN)"

text \<open>\<^verbatim>\<open>a <= b\<close> and \<^verbatim>\<open>a > b\<close>. Comparisons with NaN are false; the two zeros are equal.\<close>

definition fle :: "pyfloat \<Rightarrow> pyfloat \<Rightarrow> bool" where
  "fle a b = (case a of
      NaN \<Rightarrow> False
    | PosInf \<Rightarrow> b = PosInf
    | NegInf \<Rightarrow> b \<noteq> NaN
    | _ \<Rightarrow> (case b of
          NaN \<Rightarrow> False
        | PosInf \<Rightarrow> True
        | NegInf \<Rightarrow> False
        | _ \<Rightarrow> fval a \<le> fval b))"

definition fgt :: "pyfloat \<Rightarrow> pyfloat \<Rightarrow> bool" where
  "fgt a b = (case a of
      NaN \<Rightarrow> False
    | PosInf \<Rightarrow> b \<noteq> NaN \<and> b \<noteq> PosInf
    | NegInf \<Rightarrow> False
    | _ \<Rightarrow> (case b of
          NaN \<Rightarrow> False
        | PosInf \<Rightarrow> False
        | NegInf \<Rightarrow> True
        | _ \<Rightarrow> fval b < fval a))"

text \<open>
  Python's two-argument \<^verbatim>\<open>max(a, b)\<close> keeps \<^verbatim>\<open>a\<close> unless \<^verbatim>\<open>b > a\<close>.
\<close>

definition pymax :: "pyfloat \<Rightarrow> pyfloat \<Rightarrow> pyfloat" where
  "pymax a b = (if fgt b a then b else a)"

subsection \<open>Truthiness, \<^verbatim>\<open>or\<close>, and the built-in coercions\<close>

definition truthy :: "pyval \<Rightarrow> bool" where
  "truthy v = (case v of
      PNone \<Rightarrow> False
    | PBool b \<Rightarrow> b
    | PInt n \<Rightarrow> n \<noteq> 0
    | PFloat f \<Rightarrow> \<not> is_zero f
    | PStr s \<Rightarrow> s \<noteq> []
    | PDate d \<Rightarrow> True)"

text \<open>\<^verbatim>\<open>x or d\<close>: \<^verbatim>\<open>x\<close> when it is truthy, else \<^verbatim>\<open>d\<close>.\<close>

definition por :: "pyval \<Rightarrow> pyval \<Rightarrow> pyval" where
  "por x d = (if truthy x then x else d)"

text \<open>
  The library routines the evaluator calls on strings, floats and dates are parameters
  of the model: parsing a string as a float or an integer (\<^verbatim>\<open>float(s)\<close>, \<^verbatim>\<open>int(s)\<close>),
  \<^verbatim>\<open>pd.to_datetime(x).date()\<close> on a value that is not already a timestamp, the text of
  a finite float and of a timestamp (\<^verbatim>\<open>str\<close>), and the format \<^verbatim>\<open>{:,.2f}\<close>. A parser
  answers \<open>Inl\<close> where the library raises.
\<close>

record pylib =
  str_to_float :: "string \<Rightarrow> pyerr + pyfloat"
  str_to_int :: "string \<Rightarrow> pyerr + int"
  to_datetime_date :: "pyval \<Rightarrow> pyerr + date"
  float_str :: "pyfloat \<Rightarrow> string"
  date_str :: "date \<Rightarrow> string"
  fmt_money :: "pyfloat \<Rightarrow> string"

text \<open>
  \<^verbatim>\<open>float(v)\<close>. An integer is rounded to the nearest double, and one too large for a
  double raises \<^verbatim>\<open>OverflowError\<close>.
\<close>

definition int_to_float :: "int \<Rightarrow> pyerr + pyfloat" where
  "int_to_float n = (let f = round_double (of_int n) in
     if is_inf f then Inl OverflowError else Inr f)"

definition py_float :: "pylib \<Rightarrow> pyval \<Rightarrow> pyerr + pyfloat" where
  "py_float L v = (case v of
      PNone \<Rightarrow> Inl TypeError
    | PBool b \<Rightarrow> Inr (Fin (if b then 1 else 0))
    | PInt n \<Rightarrow> int_to_float n
    | PFloat f \<Rightarrow> Inr f
    | PStr s \<Rightarrow> str_to_float L s
    | PDate d \<Rightarrow> Inl TypeError)"

text \<open>Truncation towards zero, as \<^verbatim>\<open>int\<close> does on a float.\<close>

definition trunc :: "rat \<Rightarrow> int" where
  "trunc q = (if 0 \<le> q then \<lfloor>q\<rfloor> else \<lceil>q\<rceil>)"

text \<open>
  \<^verbatim>\<open>int(v)\<close>: NaN cannot be converted and raises \<^verbatim>\<open>ValueError\<close>, an infinity raises
  \<^verbatim>\<open>OverflowError\<close>.
\<close>

definition py_int :: "pylib \<Rightarrow> pyval \<Rightarrow> pyerr + int" where
  "py_int L v = (case v of
      PNone \<Rightarrow> Inl TypeError
    | PBool b \<Rightarrow> Inr (if b then 1 else 0)
    | PInt n \<Rightarrow> Inr n
    | PFloat f \<Rightarrow> (case f of
          NaN \<Rightarrow> Inl ValueError
        | PosInf \<Rightarrow> Inl OverflowError
        | NegInf \<Rightarrow> Inl OverflowError
        | NegZero \<Rightarrow> Inr 0
        | Fin q \<Rightarrow> Inr (trunc q))
    | PStr s \<Rightarrow> str_to_int L s
    | PDate d \<Rightarrow> Inl TypeError)"

text \<open>The decimal text of an integer.\<close>

fun nat_digits :: "nat \<Rightarrow> string" where
  "nat_digits n =
     (if n < 10 then [char_of (48 + n)]
      else nat_digits (n div 10) @ [char_of (48 + n mod 10)])"

declare nat_digits.simps [simp del]

definition str_int :: "int \<Rightarrow> string" where
  "str_int i = (if i < 0 then CHR ''-'' # nat_digits (nat (- i)) else nat_digits (nat i))"

text \<open>\<^verbatim>\<open>str(v)\<close>. The text of NaN is \<^verbatim>\<open>nan\<close>, that of the infinities \<^verbatim>\<open>inf\<close> and \<^verbatim>\<open>-inf\<close>.\<close>

definition py_str :: "pylib \<Rightarrow> pyval \<Rightarrow> string" where
  "py_str L v = (case v of
      PNone \<Rightarrow> ''None''
    | PBool b \<Rightarrow> (if b then ''True'' else ''False'')
    | PInt n \<Rightarrow> str_int n
    | PFloat f \<Rightarrow> (case f of
          NaN \<Rightarrow> ''nan''
        | PosInf \<Rightarrow> ''inf''
        | NegInf \<Rightarrow> ''-inf''
        | _ \<Rightarrow> float_str L f)
    | PStr s \<Rightarrow> s
    | PDate d \<Rightarrow> date_str L d)"

subsection \<open>\<^verbatim>\<open>str.strip\<close> and \<^verbatim>\<open>str.lower\<close>\<close>

text \<open>
  Below code point 256 the white space of \<^verbatim>\<open>str.strip()\<close> is 9 to 13, 28 to 32, 133
  and 160, and \<^verbatim>\<open>str.lower()\<close> moves the capital letters 65 to 90 and 192 to 222
  (without 215) up by 32.
\<close>

definition is_space :: "char \<Rightarrow> bool" where
  "is_space c = (let n = (of_char c :: nat) in
     (9 \<le> n \<and> n \<le> 13) \<or> (28 \<le> n \<and> n \<le> 32) \<or> n = 133 \<or> n = 160)"

definition strip :: "string \<Rightarrow> string" where
  "strip s = rev (dropWhile is_space (rev (dropWhile is_space s)))"

definition lower_char :: "char \<Rightarrow> char" where
  "lower_char c = (let n = (of_char c :: nat) in
     if (65 \<le> n \<and> n \<le> 90) \<or> (192 \<le> n \<and> n \<le> 222 \<and> n \<noteq> 215)
     then char_of (n + 32) else c)"

definition lower :: "string \<Rightarrow> string" where
  "lower s = map lower_char s"


section \<open>The helpers of the source\<close>

text \<open>\<^verbatim>\<open>pd.isna(x)\<close> on a scalar: true for \<^verbatim>\<open>None\<close> and NaN.\<close>

definition isna :: "pyval \<Rightarrow> bool" where
  "isna x = (case x of PNone \<Rightarrow> True | PFloat f \<Rightarrow> f = NaN | _ \<Rightarrow> False)"

text \<open>
  \<^verbatim>\<open>pd.to_datetime(x).date()\<close>: a timestamp cell gives its date; every other value goes
  to the parser of the library.
\<close>

definition to_date :: "pylib \<Rightarrow> pyval \<Rightarrow> pyerr + date" where
  "to_date L x = (case x of PDate d \<Rightarrow> Inr d | _ \<Rightarrow> to_datetime_date L x)"

text \<open>
  \<^verbatim>\<open>
  def parse_date_safe(x):
      if pd.isna(x) or x is None:
          return None
      try:
          return pd.to_datetime(x).date()
      except Exception:
          return None
  \<close>
\<close>

definition parse_date_safe :: "pylib \<Rightarrow> pyval \<Rightarrow> date option" where
  "parse_date_safe L x =
     (if isna x \<or> x = PNone then None
      else (case to_date L x of Inr d \<Rightarrow> Some d | Inl e \<Rightarrow> None))"

text \<open>
  \<^verbatim>\<open>
  def to_bool(x):
      if isinstance(x, str):
          return x.strip().lower() in ["y","yes","true","1"]
      if isinstance(x, (int, float)):
          return bool(x)
      return False
  \<close>
  A \<^verbatim>\<open>bool\<close> is an \<^verbatim>\<open>int\<close> for \<^verbatim>\<open>isinstance\<close>.
\<close>

definition to_bool :: "pyval \<Rightarrow> bool" where
  "to_bool x = (case x of
      PStr s \<Rightarrow> lower (strip s) \<in> set [''y'', ''yes'', ''true'', ''1'']
    | PBool b \<Rightarrow> truthy x
    | PInt n \<Rightarrow> truthy x
    | PFloat f \<Rightarrow> truthy x
    | _ \<Rightarrow> False)"

subsection \<open>Dates\<close>

text \<open>
  \<^verbatim>\<open>(approved_on - period_end).days\<close> is the difference of the proleptic Gregorian
  ordinals of the two dates, computed as \<^verbatim>\<open>datetime.date.toordinal\<close> does.
\<close>

definition is_leap :: "int \<Rightarrow> bool" where
  "is_leap y = (y mod 4 = 0 \<and> (y mod 100 \<noteq> 0 \<or> y mod 400 = 0))"

definition days_before_year :: "int \<Rightarrow> int" where
  "days_before_year y = (let z = y - 1 in z * 365 + z div 4 - z div 100 + z div 400)"

definition days_before_month :: "int \<Rightarrow> int \<Rightarrow> int" where
  "days_before_month y m =
     sum_list (take (nat (m - 1)) [31, 28, 31, 30, 31, 30, 31, 31, 30, 31, 30, 31])
       + (if 2 < m \<and> is_leap y then 1 else 0)"

definition toordinal :: "date \<Rightarrow> int" where
  "toordinal d = days_before_year (year d) + days_before_month (year d) (month d) + day d"

definition days_between :: "date \<Rightarrow> date \<Rightarrow> int" where
  "days_between a b = toordinal a - toordinal b"

section \<open>Rows, criteria and results\<close>

text \<open>
  A row of the normalised frame and the criteria are dictionaries; \<^verbatim>\<open>d.get(k, default)\<close>
  answers the default for a missing key, and \<^verbatim>\<open>r.get(k)\<close> answers \<^verbatim>\<open>None\<close>.
\<close>

type_synonym pydict = "string \<rightharpoonup> pyval"

definition dget :: "pydict \<Rightarrow> string \<Rightarrow> pyval \<Rightarrow> pyval" where
  "dget d k dflt = (case d k of None \<Rightarrow> dflt | Some v \<Rightarrow> v)"

definition rget :: "pydict \<Rightarrow> string \<Rightarrow> pyval" where
  "rget r k = dget r k PNone"

text \<open>
  The criteria as the application builds them from its typed inputs
  (\<^verbatim>\<open>streamlit_app.py\<close>, the dictionary \<^verbatim>\<open>crit\<close>): integers, floats and Booleans.
\<close>

record criteria =
  timeliness_sla_days :: int
  tieout_tolerance_abs :: pyfloat
  tieout_tolerance_pct :: pyfloat
  require_sod :: bool
  allow_items_over_threshold_with_plan :: bool
  aging_threshold_days :: int

definition crit_dict :: "criteria \<Rightarrow> pydict" where
  "crit_dict c = map_of
     [(''timeliness_sla_days'', PInt (timeliness_sla_days c)),
      (''tieout_tolerance_abs'', PFloat (tieout_tolerance_abs c)),
      (''tieout_tolerance_pct'', PFloat (tieout_tolerance_pct c)),
      (''require_sod'', PBool (require_sod c)),
      (''allow_items_over_threshold_with_plan'', PBool (allow_items_over_threshold_with_plan c)),
      (''aging_threshold_days'', PInt (aging_threshold_days c))]"

text \<open>The local variables of one iteration of the loop of \<^verbatim>\<open>evaluate\<close>.\<close>

record locals =
  period_end :: "date option"
  gl_bal :: pyfloat
  sub_bal :: pyfloat
  preparer :: string
  approver :: string
  approved_on :: "date option"
  items_over :: int
  plan :: bool
  variance :: pyfloat
  tol_abs :: pyfloat
  tol_pct :: pyfloat
  tol :: pyfloat
  tieout_pass :: bool
  sod_required :: bool
  sod_pass :: bool
  sla_days :: int
  sla_over :: "int option"
  timely_pass :: bool
  allow_over_with_plan :: bool
  aging_pass :: bool

text \<open>
  One entry of the result list. \<^verbatim>\<open>streamlit_app.py\<close> writes the twelve fields of
  \<open>result\<close>; \<^verbatim>\<open>streamlit_gl_recon_simple.py\<close> adds the run identifier and the
  checklist version.
\<close>

record result =
  entity :: pyval
  account_id :: pyval
  account_name :: pyval
  period_end_date :: "date option"
  status :: string
  severity :: string
  rationale :: string
  variance_amount :: pyfloat
  sla_days_over :: int
  sod_violation :: bool
  aged_items_flag :: bool
  evidence_link :: pyval

record batch_result = result +
  agent_run_id :: string
  checklist_version :: string

section \<open>The four checks\<close>

text \<open>
  \<^verbatim>\<open>
  sla_over = None
  timely_pass = True
  if approved_on and period_end:
      delta_days = (approved_on - period_end).days
      sla_over = max(0, delta_days - sla_days)
      timely_pass = delta_days <= sla_days
  \<close>
  A date is always truthy, so the test is that both dates were parsed.
\<close>

definition timeliness :: "date option \<Rightarrow> date option \<Rightarrow> int \<Rightarrow> int option \<times> bool" where
  "timeliness a_on p_end sla =
     (case a_on of
        None \<Rightarrow> (None, True)
      | Some a \<Rightarrow>
          (case p_end of
             None \<Rightarrow> (None, True)
           | Some p \<Rightarrow>
               (let delta_days = days_between a p
                in (Some (max 0 (delta_days - sla)), delta_days \<le> sla))))"

text \<open>
  The body of the loop up to the aggregation: the coercions of the fields and of the
  criteria in the order of the source (an exception of \<^verbatim>\<open>float\<close> or \<^verbatim>\<open>int\<close> leaves the
  function at once), and the four checks. The batch script also parses
  \<^verbatim>\<open>prepared_on\<close> with \<^verbatim>\<open>parse_date_safe\<close> and never reads the result.
\<close>

definition row_locals :: "pylib \<Rightarrow> pydict \<Rightarrow> pydict \<Rightarrow> pyerr + locals" where
  "row_locals L r crit =
     (let p_end = parse_date_safe L (rget r ''period_end_date'') in
      bnd (py_float L (por (rget r ''gl_ending_balance'') (PFloat (Fin 0)))) (\<lambda>gl.
      bnd (py_float L (por (rget r ''subledger_ending_balance'') (PFloat (Fin 0)))) (\<lambda>sub.
      let prep = py_str L (por (rget r ''preparer'') (PStr []));
          appr = py_str L (por (rget r ''approver'') (PStr []));
          a_on = parse_date_safe L (rget r ''approved_on'') in
      bnd (py_int L (por (rget r ''items_over_aging_threshold'') (PInt 0))) (\<lambda>items.
      let pl = to_bool (rget r ''action_plan_present'');
          var = fsub gl sub in
      bnd (py_float L (dget crit ''tieout_tolerance_abs'' (PFloat (Fin 0)))) (\<lambda>t_abs.
      bnd (py_float L (dget crit ''tieout_tolerance_pct'' (PFloat (Fin 0)))) (\<lambda>t_pct.
      let t = pymax t_abs (fmul (fabs gl) t_pct);
          t_pass = fle (fabs var) t;
          sod_req = truthy (dget crit ''require_sod'' (PBool True));
          s_pass = (if sod_req then prep \<noteq> appr else True) in
      bnd (py_int L (dget crit ''timeliness_sla_days'' (PInt 5))) (\<lambda>sla.
      let tm = timeliness a_on p_end sla;
          allow = truthy (dget crit ''allow_items_over_threshold_with_plan'' (PBool True));
          a_pass = (items = 0 \<or> (allow \<and> pl)) in
      Inr \<lparr>period_end = p_end, gl_bal = gl, sub_bal = sub, preparer = prep,
           approver = appr, approved_on = a_on, items_over = items, plan = pl,
           variance = var, tol_abs = t_abs, tol_pct = t_pct, tol = t,
           tieout_pass = t_pass, sod_required = sod_req, sod_pass = s_pass,
           sla_days = sla, sla_over = fst tm, timely_pass = snd tm,
           allow_over_with_plan = allow, aging_pass = a_pass\<rparr>)))))))"

section \<open>Aggregation\<close>

text \<open>
  The aggregation mutates the list \<^verbatim>\<open>failures\<close> and the variable \<^verbatim>\<open>severity\<close> in four
  consecutive \<^verbatim>\<open>if\<close> statements; each is a function on the pair of the two.
\<close>

type_synonym agg = "string list \<times> string"

definition fmt_sla_over :: "int option \<Rightarrow> string" where
  "fmt_sla_over x = (case x of None \<Rightarrow> ''None'' | Some n \<Rightarrow> str_int n)"

definition step_tieout :: "pylib \<Rightarrow> locals \<Rightarrow> agg \<Rightarrow> agg" where
  "step_tieout L v st =
     (if \<not> tieout_pass v
      then (fst st @ [''Tie-out variance '' @ fmt_money L (variance v)
                       @ '' exceeds tolerance '' @ fmt_money L (tol v)], ''high'')
      else st)"

definition step_sod :: "locals \<Rightarrow> agg \<Rightarrow> agg" where
  "step_sod v st =
     (if \<not> sod_pass v
      then (fst st @ [''Segregation of duties failed (preparer equals approver)''], ''high'')
      else st)"

definition step_timely :: "locals \<Rightarrow> agg \<Rightarrow> agg" where
  "step_timely v st =
     (if \<not> timely_pass v
      then (fst st @ [''Approval exceeded SLA by '' @ fmt_sla_over (sla_over v) @ '' day(s)''],
            if snd st \<noteq> ''high'' then ''medium'' else ''high'')
      else st)"

definition step_aging :: "locals \<Rightarrow> agg \<Rightarrow> agg" where
  "step_aging v st =
     (if \<not> aging_pass v
      then (fst st @ [''Aged items without action plan''],
            if snd st = ''low'' then ''medium'' else snd st)
      else st)"

definition aggregate :: "pylib \<Rightarrow> locals \<Rightarrow> agg" where
  "aggregate L v = step_aging v (step_timely v (step_sod v (step_tieout L v ([], ''low''))))"

text \<open>\<^verbatim>\<open>sep.join(xs)\<close>.\<close>

fun join :: "string \<Rightarrow> string list \<Rightarrow> string" where
  "join sep [] = []"
| "join sep [x] = x"
| "join sep (x # y # ys) = x @ sep @ join sep (y # ys)"

definition status_of :: "agg \<Rightarrow> string" where
  "status_of st =
     (if fst st = [] then ''pass'' else (if snd st = ''high'' then ''fail'' else ''warn''))"

definition rationale_of :: "agg \<Rightarrow> string" where
  "rationale_of st =
     (if fst st \<noteq> [] then join '' | '' (fst st) else ''All checks passed within thresholds.'')"

definition build_result :: "pylib \<Rightarrow> pydict \<Rightarrow> locals \<Rightarrow> result" where
  "build_result L r v =
     (let st = aggregate L v in
      \<lparr>entity = rget r ''entity'',
       account_id = rget r ''account_id'',
       account_name = rget r ''account_name'',
       period_end_date = period_end v,
       status = status_of st,
       severity = snd st,
       rationale = rationale_of st,
       variance_amount = variance v,
       sla_days_over = (case sla_over v of None \<Rightarrow> 0 | Some n \<Rightarrow> n),
       sod_violation = (\<not> sod_pass v),
       aged_items_flag = (\<not> aging_pass v),
       evidence_link = por (rget r ''documentation_links'') (PStr [])\<rparr>)"

section \<open>The evaluator\<close>

text \<open>One iteration of the loop of \<^verbatim>\<open>streamlit_app.py\<close>.\<close>

definition evaluate_row_app :: "pylib \<Rightarrow> pydict \<Rightarrow> pydict \<Rightarrow> pyerr + result" where
  "evaluate_row_app L r crit = bnd (row_locals L r crit) (\<lambda>v. Inr (build_result L r v))"

text \<open>
  One iteration of the loop of \<^verbatim>\<open>streamlit_gl_recon_simple.py\<close>: the same entry with
  the run identifier and the checklist version appended.
\<close>

definition evaluate_row :: "pylib \<Rightarrow> string \<Rightarrow> string \<Rightarrow> pydict \<Rightarrow> pydict \<Rightarrow> pyerr + batch_result" where
  "evaluate_row L run_id cv r crit =
     bnd (row_locals L r crit) (\<lambda>v.
       Inr (result.extend (build_result L r v)
              (batch_result.fields run_id cv)))"

text \<open>
  The loop \<^verbatim>\<open>for _, r in df.iterrows()\<close> appends one entry per row to \<^verbatim>\<open>results\<close>; an
  exception in a row ends the call.
\<close>

fun eval_loop_app :: "pylib \<Rightarrow> pydict \<Rightarrow> result list \<Rightarrow> pydict list \<Rightarrow> pyerr + result list" where
  "eval_loop_app L crit results [] = Inr results"
| "eval_loop_app L crit results (r # rs) =
     bnd (evaluate_row_app L r crit) (\<lambda>res. eval_loop_app L crit (results @ [res]) rs)"

fun eval_loop :: "pylib \<Rightarrow> string \<Rightarrow> string \<Rightarrow> pydict \<Rightarrow> batch_result list \<Rightarrow> pydict list
    \<Rightarrow> pyerr + batch_result list" where
  "eval_loop L run_id cv crit results [] = Inr results"
| "eval_loop L run_id cv crit results (r # rs) =
     bnd (evaluate_row L run_id cv r crit) (\<lambda>res. eval_loop L run_id cv crit (results @ [res]) rs)"

text \<open>
  \<^verbatim>\<open>evaluate(df, crit, checklist_version)\<close> reads the clock once, before the loop:
  \<^verbatim>\<open>run_id = datetime.utcnow().strftime("%Y%m%d%H%M%S")\<close>. The reading is the argument
  \<open>now\<close>. The application computes \<^verbatim>\<open>run_id\<close> too and does not use it.
\<close>

definition evaluate_app :: "pylib \<Rightarrow> string \<Rightarrow> pydict list \<Rightarrow> pydict \<Rightarrow> pyerr + result list" where
  "evaluate_app L now df crit = (let run_id = now in eval_loop_app L crit [] df)"

definition evaluate :: "pylib \<Rightarrow> string \<Rightarrow> pydict list \<Rightarrow> pydict \<Rightarrow> string
    \<Rightarrow> pyerr + batch_result list" where
  "evaluate L now df crit cv = (let run_id = now in eval_loop L run_id cv crit [] df)"

section \<open>Concrete inputs\<close>

text \<open>
  A library instance for the concrete runs of this development. It refuses every string
  and every value that is not a timestamp, and its renderings are fixed texts; the runs
  below use typed cells only, so none of the refusals is reached.
\<close>

definition demo_lib :: pylib where
  "demo_lib =
     \<lparr>str_to_float = (\<lambda>s. Inl ValueError),
      str_to_int = (\<lambda>s. Inl ValueError),
      to_datetime_date = (\<lambda>x. Inl TypeError),
      float_str = (\<lambda>f. ''<float>''),
      date_str = (\<lambda>d. ''<timestamp>''),
      fmt_money = (\<lambda>f. ''<amount>'')\<rparr>"

text \<open>The float that the literal \<^verbatim>\<open>0.002\<close> denotes: the double nearest to 2/1000.\<close>

definition point_002 :: pyfloat where
  "point_002 = round_double (2 / 1000)"

text \<open>
  The default criteria of both programs, the same with an absolute tolerance of 100, and
  the same with no tolerance in proportion to the balance.
\<close>

definition default_criteria :: criteria where
  "default_criteria =
     \<lparr>timeliness_sla_days = 5, tieout_tolerance_abs = Fin 1000,
      tieout_tolerance_pct = point_002,
      require_sod = True, allow_items_over_threshold_with_plan = True,
      aging_threshold_days = 60\<rparr>"

definition strict_criteria :: criteria where
  "strict_criteria = default_criteria\<lparr>tieout_tolerance_abs := Fin 100\<rparr>"

definition abs_only_criteria :: criteria where
  "abs_only_criteria = default_criteria\<lparr>tieout_tolerance_pct := Fin 0\<rparr>"

text \<open>
  A reconciliation with a variance of 500 on a balance of 100000, prepared and approved
  by two people, approved four days after the period end, with no aged items.
\<close>

definition sample_row :: pydict where
  "sample_row = map_of
     [(''entity'', PStr ''US01''),
      (''account_id'', PInt 1010),
      (''account_name'', PStr ''Cash''),
      (''period_end_date'', PDate (Date 2024 1 31)),
      (''gl_ending_balance'', PFloat (Fin 100000)),
      (''subledger_ending_balance'', PFloat (Fin 100500)),
      (''preparer'', PStr ''A.Chen''),
      (''approver'', PStr ''J.Lee''),
      (''approved_on'', PDate (Date 2024 2 4)),
      (''items_over_aging_threshold'', PInt 0),
      (''action_plan_present'', PStr ''no''),
      (''documentation_links'', PNone)]"

text \<open>The same reconciliation prepared and approved by one person.\<close>

definition same_person_row :: pydict where
  "same_person_row = sample_row(''preparer'' \<mapsto> PStr ''J.Lee'')"

text \<open>The same reconciliation approved on 2024-02-10, ten days after the period end.\<close>

definition late_row :: pydict where
  "late_row = sample_row(''approved_on'' \<mapsto> PDate (Date 2024 2 10))"

text \<open>The same reconciliation with three aged items and no action plan.\<close>

definition aged_row :: pydict where
  "aged_row = sample_row(''items_over_aging_threshold'' \<mapsto> PInt 3)"

text \<open>A row whose cells are all absent.\<close>

definition empty_row :: pydict where
  "empty_row = Map.empty"

text \<open>A row whose count of aged items is a blank cell, which pandas reads as NaN.\<close>

definition blank_count_row :: pydict where
  "blank_count_row = sample_row(''items_over_aging_threshold'' \<mapsto> PFloat NaN)"

text \<open>The same reconciliation with the preparer's name in another case, and padded.\<close>

definition other_case_row :: pydict where
  "other_case_row = same_person_row(''preparer'' \<mapsto> PStr ''j.lee'')"

definition padded_row :: pydict where
  "padded_row = same_person_row(''preparer'' \<mapsto> PStr ''J.Lee '')"

text \<open>The default criteria without the segregation of duties requirement.\<close>

definition no_sod_criteria :: criteria where
  "no_sod_criteria = default_criteria\<lparr>require_sod := False\<rparr>"

text \<open>
  Two reconciliations whose balances are the doubles of the literals \<^verbatim>\<open>1498.65\<close> and
  \<^verbatim>\<open>498.65\<close>, and \<^verbatim>\<open>1099.73\<close> and \<^verbatim>\<open>99.73\<close>: the decimal difference is 1000 in
  both.
\<close>

definition above_1000_row :: pydict where
  "above_1000_row = sample_row
     (''gl_ending_balance'' \<mapsto> PFloat (Fin (3295566201933005 / 2199023255552)),
      ''subledger_ending_balance'' \<mapsto> PFloat (Fin (4386171785524019 / 8796093022208)))"

definition just_1000_row :: pydict where
  "just_1000_row = sample_row
     (''gl_ending_balance'' \<mapsto> PFloat (Fin (2418331844828201 / 2199023255552)),
      ''subledger_ending_balance'' \<mapsto> PFloat (Fin (7017874856838431 / 70368744177664)))"

text \<open>
  The sample reconciliation with no preparer cell and a blank approver cell, and with
  both cells blank.
\<close>

definition blank_approver_row :: pydict where
  "blank_approver_row = sample_row(''preparer'' \<mapsto> PNone, ''approver'' \<mapsto> PFloat NaN)"

definition both_blank_row :: pydict where
  "both_blank_row = sample_row(''preparer'' \<mapsto> PFloat NaN, ''approver'' \<mapsto> PFloat NaN)"

text \<open>The order of the severities.\<close>

definition sev_rank :: "string \<Rightarrow> nat" where
  "sev_rank s = (if s = ''low'' then 0 else if s = ''medium'' then 1 else 2)"

section \<open>Basic facts\<close>

lemma bnd_Inr: "bnd m f = Inr y \<longleftrightarrow> (\<exists>x. m = Inr x \<and> f x = Inr y)"
  by (cases m) (simp_all add: bnd_def)

lemma bnd_Inl: "bnd m f = Inl e \<longleftrightarrow> m = Inl e \<or> (\<exists>x. m = Inr x \<and> f x = Inl e)"
  by (cases m) (simp_all add: bnd_def)

text \<open>Each local variable of a completed iteration, as the source assigns it.\<close>

lemma row_locals_fields:
  assumes "row_locals L r crit = Inr v"
  shows "period_end v = parse_date_safe L (rget r ''period_end_date'')"
    and "py_float L (por (rget r ''gl_ending_balance'') (PFloat (Fin 0))) = Inr (gl_bal v)"
    and "py_float L (por (rget r ''subledger_ending_balance'') (PFloat (Fin 0))) = Inr (sub_bal v)"
    and "preparer v = py_str L (por (rget r ''preparer'') (PStr []))"
    and "approver v = py_str L (por (rget r ''approver'') (PStr []))"
    and "approved_on v = parse_date_safe L (rget r ''approved_on'')"
    and "py_int L (por (rget r ''items_over_aging_threshold'') (PInt 0)) = Inr (items_over v)"
    and "plan v = to_bool (rget r ''action_plan_present'')"
    and "variance v = fsub (gl_bal v) (sub_bal v)"
    and "py_float L (dget crit ''tieout_tolerance_abs'' (PFloat (Fin 0))) = Inr (tol_abs v)"
    and "py_float L (dget crit ''tieout_tolerance_pct'' (PFloat (Fin 0))) = Inr (tol_pct v)"
    and "tol v = pymax (tol_abs v) (fmul (fabs (gl_bal v)) (tol_pct v))"
    and "tieout_pass v = fle (fabs (variance v)) (tol v)"
    and "sod_required v = truthy (dget crit ''require_sod'' (PBool True))"
    and "sod_pass v = (if sod_required v then preparer v \<noteq> approver v else True)"
    and "py_int L (dget crit ''timeliness_sla_days'' (PInt 5)) = Inr (sla_days v)"
    and "sla_over v = fst (timeliness (approved_on v) (period_end v) (sla_days v))"
    and "timely_pass v = snd (timeliness (approved_on v) (period_end v) (sla_days v))"
    and "allow_over_with_plan v =
           truthy (dget crit ''allow_items_over_threshold_with_plan'' (PBool True))"
    and "aging_pass v = (items_over v = 0 \<or> (allow_over_with_plan v \<and> plan v))"
  using assms unfolding row_locals_def Let_def bnd_Inr by auto

lemma evaluate_row_app_Inr:
  "evaluate_row_app L r crit = Inr a \<longleftrightarrow>
     (\<exists>v. row_locals L r crit = Inr v \<and> a = build_result L r v)"
  unfolding evaluate_row_app_def bnd_Inr by auto

lemma evaluate_row_Inr:
  "evaluate_row L run_id cv r crit = Inr b \<longleftrightarrow>
     (\<exists>v. row_locals L r crit = Inr v \<and>
          b = result.extend (build_result L r v) (batch_result.fields run_id cv))"
  unfolding evaluate_row_def bnd_Inr by auto

lemma extend_fields:
  "status (result.extend a m) = status a"
  "severity (result.extend a m) = severity a"
  "variance_amount (result.extend a m) = variance_amount a"
  "sla_days_over (result.extend a m) = sla_days_over a"
  "sod_violation (result.extend a m) = sod_violation a"
  "aged_items_flag (result.extend a m) = aged_items_flag a"
  "rationale (result.extend a m) = rationale a"
  "period_end_date (result.extend a m) = period_end_date a"
  by (simp_all add: result.defs)

lemma build_fields:
  "status (build_result L r v) = status_of (aggregate L v)"
  "severity (build_result L r v) = snd (aggregate L v)"
  "rationale (build_result L r v) = rationale_of (aggregate L v)"
  "variance_amount (build_result L r v) = variance v"
  "sla_days_over (build_result L r v) = (case sla_over v of None \<Rightarrow> 0 | Some n \<Rightarrow> n)"
  "sod_violation (build_result L r v) = (\<not> sod_pass v)"
  "aged_items_flag (build_result L r v) = (\<not> aging_pass v)"
  "period_end_date (build_result L r v) = period_end v"
  by (simp_all add: build_result_def Let_def)

text \<open>The fields of a batch entry in terms of the local variables.\<close>

lemma batch_fields:
  assumes "row_locals L r crit = Inr v" and "evaluate_row L run_id cv r crit = Inr b"
  shows "status b = status_of (aggregate L v)"
    and "severity b = snd (aggregate L v)"
    and "variance_amount b = variance v"
    and "sla_days_over b = (case sla_over v of None \<Rightarrow> 0 | Some n \<Rightarrow> n)"
    and "sod_violation b = (\<not> sod_pass v)"
    and "aged_items_flag b = (\<not> aging_pass v)"
  using assms by (auto simp: evaluate_row_Inr extend_fields build_fields)

lemma app_fields:
  assumes "row_locals L r crit = Inr v" and "evaluate_row_app L r crit = Inr a"
  shows "status a = status_of (aggregate L v)"
    and "severity a = snd (aggregate L v)"
    and "variance_amount a = variance v"
    and "sla_days_over a = (case sla_over v of None \<Rightarrow> 0 | Some n \<Rightarrow> n)"
    and "sod_violation a = (\<not> sod_pass v)"
    and "aged_items_flag a = (\<not> aging_pass v)"
  using assms by (auto simp: evaluate_row_app_Inr build_fields)

lemma aggregate_failures_empty:
  "fst (aggregate L v) = [] \<longleftrightarrow> tieout_pass v \<and> sod_pass v \<and> timely_pass v \<and> aging_pass v"
  by (simp add: aggregate_def step_tieout_def step_sod_def step_timely_def step_aging_def)

lemma aggregate_severity:
  "snd (aggregate L v) =
     (if \<not> tieout_pass v \<or> \<not> sod_pass v then ''high''
      else if \<not> timely_pass v \<or> \<not> aging_pass v then ''medium'' else ''low'')"
  by (simp add: aggregate_def step_tieout_def step_sod_def step_timely_def step_aging_def)

subsection \<open>Rounding\<close>

lemma ilog2_bounds:
  assumes "0 < q"
  shows "2 powi (ilog2 q) \<le> q \<and> q < 2 powi (ilog2 q + 1)"
proof -
  obtain n d where nd: "quotient_of q = (n, d)" by (cases "quotient_of q")
  have d: "0 < d" using nd by (rule quotient_of_denom_pos)
  have q: "q = of_int n / of_int d" using nd by (rule quotient_of_div)
  have n: "0 < n" using assms d q by (simp add: zero_less_divide_iff)
  define bn where "bn = bitlen n"
  define bd where "bd = bitlen d"
  have bnb: "2 ^ nat (bn - 1) \<le> n" "n < 2 ^ nat bn"
    using bitlen_bounds [OF n] by (simp_all add: bn_def)
  have bdb: "2 ^ nat (bd - 1) \<le> d" "d < 2 ^ nat bd"
    using bitlen_bounds [OF d] by (simp_all add: bd_def)
  have bn1: "1 \<le> bn" using n bnb(2) by (cases "bn \<le> 0") auto
  have bd1: "1 \<le> bd" using d bdb(2) by (cases "bd \<le> 0") auto
  have rn: "(2::rat) powi (bn - 1) \<le> of_int n" "(of_int n :: rat) < 2 powi bn"
  proof -
    have "(of_int (2 ^ nat (bn - 1)) :: rat) \<le> of_int n"
      using bnb(1) by (simp only: of_int_le_iff)
    then show "(2::rat) powi (bn - 1) \<le> of_int n"
      using bn1 by (simp add: power_int_def)
    have "(of_int n :: rat) < of_int (2 ^ nat bn)"
      using bnb(2) by (simp only: of_int_less_iff)
    then show "(of_int n :: rat) < 2 powi bn"
      using bn1 by (simp add: power_int_def)
  qed
  have rd: "(2::rat) powi (bd - 1) \<le> of_int d" "(of_int d :: rat) < 2 powi bd"
  proof -
    have "(of_int (2 ^ nat (bd - 1)) :: rat) \<le> of_int d"
      using bdb(1) by (simp only: of_int_le_iff)
    then show "(2::rat) powi (bd - 1) \<le> of_int d"
      using bd1 by (simp add: power_int_def)
    have "(of_int d :: rat) < of_int (2 ^ nat bd)"
      using bdb(2) by (simp only: of_int_less_iff)
    then show "(of_int d :: rat) < 2 powi bd"
      using bd1 by (simp add: power_int_def)
  qed
  have dpos: "(0::rat) < of_int d" using d by simp
  have lo: "2 powi (bn - bd - 1) \<le> q"
  proof -
    have "(2::rat) powi (bn - bd - 1) * of_int d \<le> 2 powi (bn - bd - 1) * 2 powi bd"
      using rd(2) by (simp add: mult_left_mono)
    also have "\<dots> = 2 powi (bn - 1)"
      by (simp add: power_int_add [symmetric])
    also have "\<dots> \<le> of_int n" by (rule rn(1))
    finally show ?thesis using dpos by (simp add: q pos_le_divide_eq)
  qed
  have hi: "q < 2 powi (bn - bd + 1)"
  proof -
    have "(of_int n :: rat) < 2 powi bn" by (rule rn(2))
    also have "\<dots> = 2 powi (bn - bd + 1) * 2 powi (bd - 1)"
      by (simp add: power_int_add [symmetric])
    also have "\<dots> \<le> 2 powi (bn - bd + 1) * of_int d"
      using rd(1) by (simp add: mult_left_mono)
    finally show ?thesis using dpos by (simp add: q pos_divide_less_eq)
  qed
  have il: "ilog2 q = (if 2 powi (bn - bd) \<le> q then bn - bd else bn - bd - 1)"
    by (simp add: ilog2_def nd bn_def bd_def Let_def)
  show ?thesis
  proof (cases "2 powi (bn - bd) \<le> q")
    case True
    then show ?thesis using hi il by simp
  next
    case False
    then show ?thesis using lo il by simp
  qed
qed

lemma ilog2_eqI:
  assumes "0 < q" "2 powi k \<le> q" "q < 2 powi (k + 1)"
  shows "ilog2 q = k"
proof -
  let ?j = "ilog2 q"
  have b: "2 powi ?j \<le> q" "q < 2 powi (?j + 1)"
    using ilog2_bounds [OF assms(1)] by simp_all
  have "\<not> ?j < k"
  proof
    assume "?j < k"
    then have "?j + 1 \<le> k" by simp
    then have "(2::rat) powi (?j + 1) \<le> 2 powi k" by (simp add: power_int_increasing)
    with b(2) assms(2) show False by simp
  qed
  moreover have "\<not> k < ?j"
  proof
    assume "k < ?j"
    then have "k + 1 \<le> ?j" by simp
    then have "(2::rat) powi (k + 1) \<le> 2 powi ?j" by (simp add: power_int_increasing)
    with b(1) assms(3) show False by simp
  qed
  ultimately show ?thesis by simp
qed

lemma round_half_even_eqI:
  assumes "of_int m - 1 / 2 < x" "x < of_int m + 1 / 2"
  shows "round_half_even x = m"
proof (cases "of_int m \<le> x")
  case True
  then have f: "\<lfloor>x\<rfloor> = m"
    using assms(2) by (intro floor_unique) simp_all
  show ?thesis
    using assms(2) by (simp add: round_half_even_def Let_def f)
next
  case False
  then have f: "\<lfloor>x\<rfloor> = m - 1"
    using assms(1) by (intro floor_unique) simp_all
  show ?thesis
    using assms(1) False by (simp add: round_half_even_def Let_def f)
qed

text \<open>
  A value \<open>a\<close> between \<open>2 powi (e + 52)\<close> and \<open>2 powi (e + 53)\<close> rounds to the
  multiple \<open>m * 2 powi e\<close> of its unit \<open>2 powi e\<close> that is less than half a unit away.
\<close>

lemma round_double_normal:
  assumes "2 powi (e + 52) \<le> a" "a < 2 powi (e + 53)" "- 1074 \<le> e"
    and "(of_int m - 1 / 2) * 2 powi e < a" "a < (of_int m + 1 / 2) * 2 powi e"
    and "of_int m * 2 powi e < (2::rat) ^ 1024"
  shows "round_double a = Fin (of_int m * 2 powi e)"
    and "round_double (- a) = Fin (- (of_int m * 2 powi e))"
proof -
  have pe: "(0::rat) < 2 powi e"
    by (rule zero_less_power_int) simp
  have pos: "0 < a"
    by (rule less_le_trans [OF zero_less_power_int assms(1)]) simp
  have il: "ilog2 a = e + 52"
    using pos assms(1,2) by (intro ilog2_eqI) (simp_all add: add.assoc)
  have ex: "max (ilog2 a - 52) (- 1074) = e"
    using il assms(3) by simp
  have rm: "round_half_even (a / 2 powi e) = m"
    using assms(4,5) pe
    by (intro round_half_even_eqI) (simp_all add: pos_less_divide_eq pos_divide_less_eq)
  have "(2::rat) ^ 52 * 2 powi e = 2 powi (e + 52)"
    by (simp add: power_int_add)
  then have "(2::rat) ^ 52 * 2 powi e < (of_int m + 1 / 2) * 2 powi e"
    using assms(1,5) by simp
  then have "(2::rat) ^ 52 < of_int m + 1 / 2"
    using pe by simp
  then have "(of_int ((2::int) ^ 52) :: rat) < of_int m + 1 / 2"
    by simp
  then have "(of_int ((2::int) ^ 52) :: rat) < of_int (m + 1)"
    by simp
  then have "0 < m"
    by (simp only: of_int_less_iff) simp
  then have m0: "m \<noteq> 0" by simp
  have nov: "\<not> (2::rat) ^ 1024 \<le> of_int m * 2 powi e"
    using assms(6) by simp
  show "round_double a = Fin (of_int m * 2 powi e)"
    using pos ex rm m0 nov by (simp add: round_double_def Let_def)
  show "round_double (- a) = Fin (- (of_int m * 2 powi e))"
    using pos ex rm m0 nov by (simp add: round_double_def Let_def)
qed

text \<open>The doubles of the literals used in the concrete runs.\<close>

lemma point_002_val: "point_002 = Fin (1152921504606847 / 576460752303423488)"
  unfolding point_002_def
  using round_double_normal(1) [of "- 61" "2 / 1000" 4611686018427388]
  by simp

lemma literal_doubles:
  "round_double (149865 / 100) = Fin (3295566201933005 / 2199023255552)"
  "round_double (49865 / 100) = Fin (4386171785524019 / 8796093022208)"
  "round_double (109973 / 100) = Fin (2418331844828201 / 2199023255552)"
  "round_double (9973 / 100) = Fin (7017874856838431 / 70368744177664)"
  using round_double_normal(1) [of "- 42" "149865 / 100" 6591132403866010]
    round_double_normal(1) [of "- 44" "49865 / 100" 8772343571048038]
    round_double_normal(1) [of "- 42" "109973 / 100" 4836663689656402]
    round_double_normal(1) [of "- 46" "9973 / 100" 7017874856838431]
  by simp_all

text \<open>The differences and products of the concrete runs.\<close>

lemma fsub_zero: "fsub (Fin 0) (Fin 0) = Fin 0"
  by (simp add: fsub_def fval_def round_double_def)

lemma fmul_zero: "fmul (Fin 0) point_002 = Fin 0"
  by (simp add: fmul_def is_inf_def is_zero_def fneg_def point_002_val)

lemma fsub_sample: "fsub (Fin 100000) (Fin 100500) = Fin (- 500)"
  using round_double_normal(2) [of "- 44" 500 8796093022208000]
  by (simp add: fsub_def fval_def)

lemma fmul_sample: "fmul (Fin 100000) point_002 = Fin 200"
  using round_double_normal(1)
    [of "- 45" "100000 * (1152921504606847 / 576460752303423488)" 7036874417766400]
  by (simp add: fmul_def is_inf_def is_zero_def fval_def point_002_val)

lemma fsub_above_1000:
  "fsub (Fin (3295566201933005 / 2199023255552)) (Fin (4386171785524019 / 8796093022208))
     = Fin (8796093022208001 / 8796093022208)"
  using round_double_normal(1)
    [of "- 43" "3295566201933005 / 2199023255552 - 4386171785524019 / 8796093022208"
      8796093022208001]
  by (simp add: fsub_def fval_def)

lemma fmul_above_1000:
  "fmul (Fin (3295566201933005 / 2199023255552)) point_002
     = Fin (3374659790779397 / 1125899906842624)"
  using round_double_normal(1)
    [of "- 51" "3295566201933005 / 2199023255552 * (1152921504606847 / 576460752303423488)"
      6749319581558794]
  by (simp add: fmul_def is_inf_def is_zero_def fval_def point_002_val)

lemma fsub_just_1000:
  "fsub (Fin (2418331844828201 / 2199023255552)) (Fin (7017874856838431 / 70368744177664))
     = Fin 1000"
  using round_double_normal(1)
    [of "- 43" "2418331844828201 / 2199023255552 - 7017874856838431 / 70368744177664"
      8796093022208000]
  by (simp add: fsub_def fval_def)

lemma fmul_just_1000:
  "fmul (Fin (2418331844828201 / 2199023255552)) point_002
     = Fin (1238185904552039 / 562949953421312)"
  using round_double_normal(1)
    [of "- 51" "2418331844828201 / 2199023255552 * (1152921504606847 / 576460752303423488)"
      4952743618208156]
  by (simp add: fmul_def is_inf_def is_zero_def fval_def point_002_val)

text \<open>Evaluation of the coercions on typed cells and typed criteria.\<close>

lemmas eval_defs =
  row_locals_def bnd_def Let_def rget_def dget_def por_def truthy_def is_zero_def py_float_def
  py_int_def py_str_def parse_date_safe_def isna_def to_date_def fabs_def fle_def fgt_def
  fval_def pymax_def timeliness_def crit_dict_def default_criteria_def strict_criteria_def
  no_sod_criteria_def abs_only_criteria_def
  fsub_zero fmul_zero fsub_sample fmul_sample fsub_above_1000 fmul_above_1000
  fsub_just_1000 fmul_just_1000
  days_between_def toordinal_def days_before_year_def days_before_month_def is_leap_def

section \<open>The verdict\<close>

text \<open>
  C1. For every record the status is \<^verbatim>\<open>pass\<close> exactly when the tie-out, segregation of
  duties, timeliness and aging checks all hold, that is when the list of failures is
  empty; it is \<^verbatim>\<open>fail\<close> exactly when the final severity is \<^verbatim>\<open>high\<close>, which is
  exactly when the tie-out check or the segregation of duties check failed; with a
  failure and a severity below \<^verbatim>\<open>high\<close> it is \<^verbatim>\<open>warn\<close>. Both programs agree.
\<close>

theorem status_by_checks:
  assumes "row_locals L r crit = Inr v"
    and "evaluate_row L run_id cv r crit = Inr b"
    and "evaluate_row_app L r crit = Inr a"
  shows "(status b = ''pass'' \<longleftrightarrow> tieout_pass v \<and> sod_pass v \<and> timely_pass v \<and> aging_pass v)
       \<and> (status b = ''pass'' \<longleftrightarrow> fst (aggregate L v) = [])
       \<and> (status b = ''fail'' \<longleftrightarrow> severity b = ''high'')
       \<and> (severity b = ''high'' \<longleftrightarrow> \<not> tieout_pass v \<or> \<not> sod_pass v)
       \<and> (fst (aggregate L v) \<noteq> [] \<and> severity b \<noteq> ''high'' \<longrightarrow> status b = ''warn'')
       \<and> status a = status b \<and> severity a = severity b"
proof -
  have st: "status b = status_of (aggregate L v)" and sv: "severity b = snd (aggregate L v)"
    using batch_fields [OF assms(1,2)] by simp_all
  have ap: "status a = status_of (aggregate L v)" "severity a = snd (aggregate L v)"
    using app_fields [OF assms(1,3)] by simp_all
  have e: "fst (aggregate L v) = [] \<longleftrightarrow>
      tieout_pass v \<and> sod_pass v \<and> timely_pass v \<and> aging_pass v"
    by (rule aggregate_failures_empty)
  have h: "snd (aggregate L v) = ''high'' \<longleftrightarrow> \<not> tieout_pass v \<or> \<not> sod_pass v"
    by (simp add: aggregate_severity)
  have p: "status_of (aggregate L v) = ''pass'' \<longleftrightarrow> fst (aggregate L v) = []"
    by (simp add: status_of_def)
  have f: "status_of (aggregate L v) = ''fail'' \<longleftrightarrow> snd (aggregate L v) = ''high''"
    using e h by (auto simp: status_of_def)
  have w: "fst (aggregate L v) \<noteq> [] \<and> snd (aggregate L v) \<noteq> ''high''
      \<longrightarrow> status_of (aggregate L v) = ''warn''"
    by (simp add: status_of_def)
  show ?thesis
    unfolding st sv ap using e h p f w by blast
qed

theorem status_by_checks_witness:
  "(\<exists>v b a. row_locals demo_lib sample_row (crit_dict default_criteria) = Inr v
        \<and> evaluate_row demo_lib ''20240205093000'' ''v1'' sample_row (crit_dict default_criteria) = Inr b
        \<and> evaluate_row_app demo_lib sample_row (crit_dict default_criteria) = Inr a
        \<and> tieout_pass v \<and> sod_pass v \<and> timely_pass v \<and> aging_pass v
        \<and> status b = ''pass'' \<and> status a = ''pass'')
 \<and> (\<exists>v b a. row_locals demo_lib same_person_row (crit_dict default_criteria) = Inr v
        \<and> evaluate_row demo_lib ''20240205093000'' ''v1'' same_person_row (crit_dict default_criteria) = Inr b
        \<and> evaluate_row_app demo_lib same_person_row (crit_dict default_criteria) = Inr a
        \<and> sod_pass v = False \<and> severity b = ''high'' \<and> status b = ''fail'' \<and> status a = ''fail'')
 \<and> (\<exists>v b a. row_locals demo_lib late_row (crit_dict default_criteria) = Inr v
        \<and> evaluate_row demo_lib ''20240205093000'' ''v1'' late_row (crit_dict default_criteria) = Inr b
        \<and> evaluate_row_app demo_lib late_row (crit_dict default_criteria) = Inr a
        \<and> tieout_pass v \<and> sod_pass v \<and> timely_pass v = False
        \<and> fst (aggregate demo_lib v) \<noteq> [] \<and> status b = ''warn'' \<and> status a = ''warn'')"
proof (intro conjI)
  let ?C = "crit_dict default_criteria"
  obtain v where v: "row_locals demo_lib sample_row ?C = Inr v"
    by (simp add: eval_defs sample_row_def)
  obtain b where b: "evaluate_row demo_lib ''20240205093000'' ''v1'' sample_row ?C = Inr b"
    using v by (simp add: evaluate_row_Inr)
  obtain a where a: "evaluate_row_app demo_lib sample_row ?C = Inr a"
    using v by (simp add: evaluate_row_app_Inr)
  have c: "tieout_pass v \<and> sod_pass v \<and> timely_pass v \<and> aging_pass v"
    using v by (auto simp: eval_defs sample_row_def)
  show "\<exists>v b a. row_locals demo_lib sample_row ?C = Inr v
        \<and> evaluate_row demo_lib ''20240205093000'' ''v1'' sample_row ?C = Inr b
        \<and> evaluate_row_app demo_lib sample_row ?C = Inr a
        \<and> tieout_pass v \<and> sod_pass v \<and> timely_pass v \<and> aging_pass v
        \<and> status b = ''pass'' \<and> status a = ''pass''"
    using status_by_checks [OF v b a] v b a c by auto
next
  let ?C = "crit_dict default_criteria"
  obtain v where v: "row_locals demo_lib same_person_row ?C = Inr v"
    by (simp add: eval_defs same_person_row_def sample_row_def)
  obtain b where b: "evaluate_row demo_lib ''20240205093000'' ''v1'' same_person_row ?C = Inr b"
    using v by (simp add: evaluate_row_Inr)
  obtain a where a: "evaluate_row_app demo_lib same_person_row ?C = Inr a"
    using v by (simp add: evaluate_row_app_Inr)
  have c: "sod_pass v = False"
    using v by (auto simp: eval_defs same_person_row_def sample_row_def)
  show "\<exists>v b a. row_locals demo_lib same_person_row ?C = Inr v
        \<and> evaluate_row demo_lib ''20240205093000'' ''v1'' same_person_row ?C = Inr b
        \<and> evaluate_row_app demo_lib same_person_row ?C = Inr a
        \<and> sod_pass v = False \<and> severity b = ''high'' \<and> status b = ''fail'' \<and> status a = ''fail''"
    using status_by_checks [OF v b a] v b a c by auto
next
  let ?C = "crit_dict default_criteria"
  obtain v where v: "row_locals demo_lib late_row ?C = Inr v"
    by (simp add: eval_defs late_row_def sample_row_def)
  obtain b where b: "evaluate_row demo_lib ''20240205093000'' ''v1'' late_row ?C = Inr b"
    using v by (simp add: evaluate_row_Inr)
  obtain a where a: "evaluate_row_app demo_lib late_row ?C = Inr a"
    using v by (simp add: evaluate_row_app_Inr)
  have c: "tieout_pass v \<and> sod_pass v \<and> timely_pass v = False \<and> aging_pass v"
    using v by (auto simp: eval_defs late_row_def sample_row_def)
  have n: "fst (aggregate demo_lib v) \<noteq> []"
    using c by (simp add: aggregate_failures_empty)
  show "\<exists>v b a. row_locals demo_lib late_row ?C = Inr v
        \<and> evaluate_row demo_lib ''20240205093000'' ''v1'' late_row ?C = Inr b
        \<and> evaluate_row_app demo_lib late_row ?C = Inr a
        \<and> tieout_pass v \<and> sod_pass v \<and> timely_pass v = False
        \<and> fst (aggregate demo_lib v) \<noteq> [] \<and> status b = ''warn'' \<and> status a = ''warn''"
    using status_by_checks [OF v b a] v b a c n by auto
qed

section \<open>The tie-out check\<close>






text \<open>
  Rounding decides the check at the edge of the tolerance. With the default criteria the
  balances \<^verbatim>\<open>1498.65\<close> and \<^verbatim>\<open>498.65\<close> give the variance \<open>1000 + 1 / 2 ^ 43\<close>, which
  Python prints as \<^verbatim>\<open>1000.0000000000001\<close>, above the tolerance of 1000: the record
  fails. The balances \<^verbatim>\<open>1099.73\<close> and \<^verbatim>\<open>99.73\<close>, whose exact difference as doubles is
  above 1000 too, give the variance 1000: the check passes.
\<close>

lemma tieout_rounding_examples:
  "(\<exists>v. row_locals L above_1000_row (crit_dict default_criteria) = Inr v
       \<and> variance v = Fin (1000 + 1 / 2 ^ 43) \<and> tol v = Fin 1000 \<and> tieout_pass v = False)
 \<and> (\<exists>v. row_locals L just_1000_row (crit_dict default_criteria) = Inr v
       \<and> variance v = Fin 1000 \<and> tol v = Fin 1000 \<and> tieout_pass v
       \<and> 1000 < (2418331844828201 / 2199023255552 - 7017874856838431 / 70368744177664 :: rat))"
  by (simp add: eval_defs above_1000_row_def just_1000_row_def sample_row_def)

section \<open>Coercion of the fields\<close>

text \<open>
  C3. The claim is that the evaluator never raises: a missing or unparseable numeric
  field becomes 0. The code evaluates \<^verbatim>\<open>int(r.get("items_over_aging_threshold") or 0)\<close>;
  NaN, the value of a blank cell, is truthy, so \<^verbatim>\<open>or\<close> keeps it and \<^verbatim>\<open>int\<close> raises
  \<^verbatim>\<open>ValueError\<close>, whatever the library, the clock and the criteria are. In the same way
  a blank balance stays NaN instead of becoming 0, and a balance that is a text the
  library cannot parse raises.
\<close>

theorem evaluate_raises_on_blank_count:
  "evaluate L now [blank_count_row] crit cv = Inl ValueError
     \<and> evaluate_app L now [blank_count_row] crit = Inl ValueError
     \<and> py_int L (por (PFloat NaN) (PInt 0)) = Inl ValueError
     \<and> py_float L (por (PFloat NaN) (PFloat (Fin 0))) = Inr NaN
     \<and> py_float (L\<lparr>str_to_float := \<lambda>s. Inl ValueError\<rparr>) (por (PStr ''n/a'') (PFloat (Fin 0)))
         = Inl ValueError"
proof -
  have i: "py_int L (por (PFloat NaN) (PInt 0)) = Inl ValueError"
    by (simp add: py_int_def por_def truthy_def is_zero_def)
  have r: "row_locals L blank_count_row crit = Inl ValueError"
    by (simp add: row_locals_def Let_def bnd_def rget_def dget_def blank_count_row_def
        sample_row_def por_def truthy_def is_zero_def py_float_def py_int_def)
  have "evaluate L now [blank_count_row] crit cv = Inl ValueError"
    by (simp add: evaluate_def evaluate_row_def r bnd_def)
  moreover have "evaluate_app L now [blank_count_row] crit = Inl ValueError"
    by (simp add: evaluate_app_def evaluate_row_app_def r bnd_def)
  moreover have "py_float L (por (PFloat NaN) (PFloat (Fin 0))) = Inr NaN"
    by (simp add: py_float_def por_def truthy_def is_zero_def)
  moreover have "py_float (L\<lparr>str_to_float := \<lambda>s. Inl ValueError\<rparr>)
      (por (PStr ''n/a'') (PFloat (Fin 0))) = Inl ValueError"
    by (simp add: py_float_def por_def truthy_def)
  ultimately show ?thesis using i by simp
qed

theorem evaluate_raises_on_blank_count_witness:
  "evaluate demo_lib ''20240205093000'' [blank_count_row] (crit_dict default_criteria) ''v1''
     = Inl ValueError
   \<and> rget blank_count_row ''items_over_aging_threshold'' = PFloat NaN"
  using evaluate_raises_on_blank_count
    [of demo_lib "''20240205093000''" "crit_dict default_criteria" "''v1''"]
  by (simp add: rget_def dget_def blank_count_row_def)

text \<open>
  The date fields do coerce without an exception: \<^verbatim>\<open>parse_date_safe\<close> answers \<^verbatim>\<open>None\<close>
  for an absent cell, for NaN and for every value the library refuses.
\<close>

lemma parse_date_safe_absent:
  "parse_date_safe L PNone = None" "parse_date_safe L (PFloat NaN) = None"
  by (simp_all add: parse_date_safe_def isna_def)

lemma parse_date_safe_refused:
  "to_date L x = Inl e \<Longrightarrow> parse_date_safe L x = None"
  by (simp add: parse_date_safe_def)


text \<open>The final severity of a batch entry in terms of the four checks.\<close>

lemma severity_high_iff:
  assumes "row_locals L r crit = Inr v" and "evaluate_row L run_id cv r crit = Inr b"
  shows "severity b = ''high'' \<longleftrightarrow> \<not> tieout_pass v \<or> \<not> sod_pass v"
  using batch_fields(2) [OF assms] by (simp add: aggregate_severity)

section \<open>The timeliness check\<close>

lemma timeliness_None:
  "a_on = None \<or> p_end = None \<Longrightarrow> timeliness a_on p_end sla = (None, True)"
  by (auto simp: timeliness_def split: option.splits)

lemma timeliness_Some:
  "timeliness (Some a) (Some p) sla =
     (Some (max 0 (days_between a p - sla)), days_between a p \<le> sla)"
  by (simp add: timeliness_def Let_def)

lemma days_between_scenario: "days_between (Date 2024 2 10) (Date 2024 1 31) = 10"
  by (simp add: days_between_def toordinal_def days_before_year_def days_before_month_def
      is_leap_def)

text \<open>
  C4. The two dates of the check are \<^verbatim>\<open>parse_date_safe\<close> of the cells
  \<^verbatim>\<open>approved_on\<close> and \<^verbatim>\<open>period_end_date\<close>. If one of them is null the check passes
  and \<^verbatim>\<open>sla_days_over\<close> is 0. Otherwise, with \<open>delta\<close> the days from the period end
  to the approval (negative when the approval is earlier), the check passes exactly when
  \<open>delta \<le> sla_days\<close>, and \<^verbatim>\<open>sla_days_over\<close> is \<open>max 0 (delta - sla_days)\<close>. A
  failure leaves the severity at \<^verbatim>\<open>medium\<close> or \<^verbatim>\<open>high\<close>. For a period end of
  2024-01-31, an approval on 2024-02-10 and an SLA of 5 days: \<open>delta = 10\<close>,
  \<^verbatim>\<open>sla_days_over\<close> is 5 and the check fails.
\<close>

theorem timeliness_check:
  assumes "row_locals L r crit = Inr v"
    and "evaluate_row L run_id cv r crit = Inr b"
  shows "approved_on v = parse_date_safe L (rget r ''approved_on'')
       \<and> period_end v = parse_date_safe L (rget r ''period_end_date'')
       \<and> py_int L (dget crit ''timeliness_sla_days'' (PInt 5)) = Inr (sla_days v)
       \<and> (approved_on v = None \<or> period_end v = None \<longrightarrow>
             timely_pass v \<and> sla_days_over b = 0)
       \<and> (approved_on v = Some a \<and> period_end v = Some p \<longrightarrow>
             (timely_pass v \<longleftrightarrow> days_between a p \<le> sla_days v)
           \<and> sla_days_over b = max 0 (days_between a p - sla_days v))
       \<and> (timely_pass v = False \<longrightarrow>
             (severity b = ''medium'' \<or> severity b = ''high'') \<and> status b \<noteq> ''pass'')
       \<and> (approved_on v = Some (Date 2024 2 10) \<and> period_end v = Some (Date 2024 1 31)
             \<and> sla_days v = 5 \<longrightarrow>
             days_between (Date 2024 2 10) (Date 2024 1 31) = 10
           \<and> sla_days_over b = 5 \<and> timely_pass v = False
           \<and> (severity b = ''medium'' \<or> severity b = ''high''))"
proof -
  note f = row_locals_fields [OF assms(1)]
  note g = batch_fields [OF assms]
  have n: "timely_pass v \<and> sla_days_over b = 0"
    if "approved_on v = None \<or> period_end v = None"
    using timeliness_None [OF that, of "sla_days v"] f(17,18) g(4) by simp
  have s: "(timely_pass v \<longleftrightarrow> days_between a p \<le> sla_days v)
      \<and> sla_days_over b = max 0 (days_between a p - sla_days v)"
    if "approved_on v = Some a" "period_end v = Some p" for a p
    using that f(17,18) g(4) by (simp add: timeliness_Some)
  have m: "(severity b = ''medium'' \<or> severity b = ''high'') \<and> status b \<noteq> ''pass''"
    if "timely_pass v = False"
    using that g(1,2) by (simp add: aggregate_severity status_of_def aggregate_failures_empty)
  have d: "days_between (Date 2024 2 10) (Date 2024 1 31) = 10 \<and> sla_days_over b = 5
      \<and> timely_pass v = False \<and> (severity b = ''medium'' \<or> severity b = ''high'')"
    if h: "approved_on v = Some (Date 2024 2 10)" "period_end v = Some (Date 2024 1 31)"
      "sla_days v = 5"
  proof -
    from s [OF h(1,2)] h(3) have "sla_days_over b = 5" "timely_pass v = False"
      by (simp_all add: days_between_scenario)
    with m show ?thesis by (simp add: days_between_scenario)
  qed
  show ?thesis
    using f(1,6,16) n s m d by blast
qed

theorem timeliness_check_witness:
  "(\<exists>v b. row_locals demo_lib late_row (crit_dict default_criteria) = Inr v
        \<and> evaluate_row demo_lib ''20240211080000'' ''v1'' late_row (crit_dict default_criteria) = Inr b
        \<and> rget late_row ''approved_on'' = PDate (Date 2024 2 10)
        \<and> rget late_row ''period_end_date'' = PDate (Date 2024 1 31)
        \<and> approved_on v = Some (Date 2024 2 10) \<and> period_end v = Some (Date 2024 1 31)
        \<and> sla_days v = 5 \<and> sla_days_over b = 5 \<and> timely_pass v = False
        \<and> severity b = ''medium'')
 \<and> (\<exists>v b. row_locals demo_lib empty_row (crit_dict default_criteria) = Inr v
        \<and> evaluate_row demo_lib ''20240211080000'' ''v1'' empty_row (crit_dict default_criteria) = Inr b
        \<and> approved_on v = None \<and> period_end v = None
        \<and> timely_pass v \<and> sla_days_over b = 0)"
proof (intro conjI)
  let ?C = "crit_dict default_criteria"
  obtain v where v: "row_locals demo_lib late_row ?C = Inr v"
    by (simp add: eval_defs late_row_def sample_row_def)
  obtain b where b: "evaluate_row demo_lib ''20240211080000'' ''v1'' late_row ?C = Inr b"
    using v by (simp add: evaluate_row_Inr)
  have c: "approved_on v = Some (Date 2024 2 10) \<and> period_end v = Some (Date 2024 1 31)
      \<and> sla_days v = 5 \<and> tieout_pass v \<and> sod_pass v"
    using v by (auto simp: eval_defs late_row_def sample_row_def)
  have d: "rget late_row ''approved_on'' = PDate (Date 2024 2 10)
      \<and> rget late_row ''period_end_date'' = PDate (Date 2024 1 31)"
    by (simp add: rget_def dget_def late_row_def sample_row_def)
  have e: "severity b \<noteq> ''high''"
    using severity_high_iff [OF v b] c by simp
  show "\<exists>v b. row_locals demo_lib late_row ?C = Inr v
        \<and> evaluate_row demo_lib ''20240211080000'' ''v1'' late_row ?C = Inr b
        \<and> rget late_row ''approved_on'' = PDate (Date 2024 2 10)
        \<and> rget late_row ''period_end_date'' = PDate (Date 2024 1 31)
        \<and> approved_on v = Some (Date 2024 2 10) \<and> period_end v = Some (Date 2024 1 31)
        \<and> sla_days v = 5 \<and> sla_days_over b = 5 \<and> timely_pass v = False
        \<and> severity b = ''medium''"
    using timeliness_check [OF v b] v b c d e by blast
next
  let ?C = "crit_dict default_criteria"
  obtain v where v: "row_locals demo_lib empty_row ?C = Inr v"
    by (simp add: eval_defs empty_row_def)
  obtain b where b: "evaluate_row demo_lib ''20240211080000'' ''v1'' empty_row ?C = Inr b"
    using v by (simp add: evaluate_row_Inr)
  have c: "approved_on v = None \<and> period_end v = None"
    using v by (auto simp: eval_defs empty_row_def)
  show "\<exists>v b. row_locals demo_lib empty_row ?C = Inr v
        \<and> evaluate_row demo_lib ''20240211080000'' ''v1'' empty_row ?C = Inr b
        \<and> approved_on v = None \<and> period_end v = None
        \<and> timely_pass v \<and> sla_days_over b = 0"
    using timeliness_check [OF v b] v b c by blast
qed

section \<open>The segregation of duties check\<close>

lemma py_str_or_empty: "py_str L (por (PStr s) (PStr [])) = s"
  by (simp add: py_str_def por_def truthy_def)

text \<open>
  C5. The requirement is \<^verbatim>\<open>bool(crit.get("require_sod", True))\<close>. Without it the check
  passes. With it the check passes exactly when the two names, each
  \<^verbatim>\<open>str(r.get(...) or "")\<close>, differ as strings: for two text cells that is plain
  inequality of the texts, with no trimming and no folding of case. A failure sets the
  violation flag and makes the severity \<^verbatim>\<open>high\<close> and the status \<^verbatim>\<open>fail\<close>,
  whatever the other checks say; so does a record prepared and approved by \<^verbatim>\<open>J.Lee\<close>.
\<close>

theorem sod_check:
  assumes "row_locals L r crit = Inr v"
    and "evaluate_row L run_id cv r crit = Inr b"
  shows "sod_required v = truthy (dget crit ''require_sod'' (PBool True))
       \<and> preparer v = py_str L (por (rget r ''preparer'') (PStr []))
       \<and> approver v = py_str L (por (rget r ''approver'') (PStr []))
       \<and> (sod_required v = False \<longrightarrow> sod_pass v)
       \<and> (sod_required v \<longrightarrow> (sod_pass v \<longleftrightarrow> preparer v \<noteq> approver v))
       \<and> (sod_required v \<and> rget r ''preparer'' = PStr s \<and> rget r ''approver'' = PStr t \<longrightarrow>
            (sod_pass v \<longleftrightarrow> s \<noteq> t))
       \<and> sod_violation b = (\<not> sod_pass v)
       \<and> (sod_pass v = False \<longrightarrow> severity b = ''high'' \<and> status b = ''fail'')
       \<and> (sod_required v \<and> rget r ''preparer'' = PStr ''J.Lee''
            \<and> rget r ''approver'' = PStr ''J.Lee'' \<longrightarrow>
            sod_violation b \<and> severity b = ''high'' \<and> status b = ''fail'')"
proof -
  note f = row_locals_fields [OF assms(1)]
  note g = batch_fields [OF assms]
  have n: "sod_required v = False \<longrightarrow> sod_pass v"
    using f(15) by simp
  have q: "sod_required v \<longrightarrow> (sod_pass v \<longleftrightarrow> preparer v \<noteq> approver v)"
    using f(15) by simp
  have x: "sod_pass v \<longleftrightarrow> s \<noteq> t"
    if "sod_required v" "rget r ''preparer'' = PStr s" "rget r ''approver'' = PStr t" for s t
    using that f(4,5,15) by (simp add: py_str_or_empty)
  have h: "sod_pass v = False \<longrightarrow> severity b = ''high'' \<and> status b = ''fail''"
    using g(1,2) by (simp add: aggregate_severity status_of_def aggregate_failures_empty)
  have j: "sod_violation b \<and> severity b = ''high'' \<and> status b = ''fail''"
    if "sod_required v" "rget r ''preparer'' = PStr ''J.Lee''"
      "rget r ''approver'' = PStr ''J.Lee''"
    using x [OF that] h g(5) by simp
  show ?thesis
    using f(14) f(4) f(5) n q x g(5) h j by blast
qed

theorem sod_check_witness:
  "(\<exists>v b. row_locals demo_lib same_person_row (crit_dict default_criteria) = Inr v
        \<and> evaluate_row demo_lib ''20240205093000'' ''v1'' same_person_row (crit_dict default_criteria) = Inr b
        \<and> rget same_person_row ''preparer'' = PStr ''J.Lee''
        \<and> rget same_person_row ''approver'' = PStr ''J.Lee''
        \<and> sod_required v \<and> tieout_pass v \<and> timely_pass v \<and> aging_pass v
        \<and> sod_violation b \<and> severity b = ''high'' \<and> status b = ''fail'')
 \<and> (\<exists>v b. row_locals demo_lib other_case_row (crit_dict default_criteria) = Inr v
        \<and> evaluate_row demo_lib ''20240205093000'' ''v1'' other_case_row (crit_dict default_criteria) = Inr b
        \<and> rget other_case_row ''preparer'' = PStr ''j.lee''
        \<and> rget other_case_row ''approver'' = PStr ''J.Lee''
        \<and> sod_required v \<and> sod_pass v \<and> sod_violation b = False)
 \<and> (\<exists>v b. row_locals demo_lib padded_row (crit_dict default_criteria) = Inr v
        \<and> evaluate_row demo_lib ''20240205093000'' ''v1'' padded_row (crit_dict default_criteria) = Inr b
        \<and> rget padded_row ''preparer'' = PStr ''J.Lee ''
        \<and> rget padded_row ''approver'' = PStr ''J.Lee''
        \<and> sod_required v \<and> sod_pass v \<and> sod_violation b = False)
 \<and> (\<exists>v b. row_locals demo_lib same_person_row (crit_dict no_sod_criteria) = Inr v
        \<and> evaluate_row demo_lib ''20240205093000'' ''v1'' same_person_row (crit_dict no_sod_criteria) = Inr b
        \<and> sod_required v = False \<and> sod_pass v \<and> sod_violation b = False)"
proof (intro conjI)
  let ?C = "crit_dict default_criteria"
  obtain v where v: "row_locals demo_lib same_person_row ?C = Inr v"
    by (simp add: eval_defs same_person_row_def sample_row_def)
  obtain b where b: "evaluate_row demo_lib ''20240205093000'' ''v1'' same_person_row ?C = Inr b"
    using v by (simp add: evaluate_row_Inr)
  have c: "sod_required v \<and> tieout_pass v \<and> timely_pass v \<and> aging_pass v"
    using v by (auto simp: eval_defs same_person_row_def sample_row_def)
  have d: "rget same_person_row ''preparer'' = PStr ''J.Lee''
      \<and> rget same_person_row ''approver'' = PStr ''J.Lee''"
    by (simp add: rget_def dget_def same_person_row_def sample_row_def)
  show "\<exists>v b. row_locals demo_lib same_person_row ?C = Inr v
        \<and> evaluate_row demo_lib ''20240205093000'' ''v1'' same_person_row ?C = Inr b
        \<and> rget same_person_row ''preparer'' = PStr ''J.Lee''
        \<and> rget same_person_row ''approver'' = PStr ''J.Lee''
        \<and> sod_required v \<and> tieout_pass v \<and> timely_pass v \<and> aging_pass v
        \<and> sod_violation b \<and> severity b = ''high'' \<and> status b = ''fail''"
    using sod_check [OF v b] v b c d by blast
next
  let ?C = "crit_dict default_criteria"
  obtain v where v: "row_locals demo_lib other_case_row ?C = Inr v"
    by (simp add: eval_defs other_case_row_def same_person_row_def sample_row_def)
  obtain b where b: "evaluate_row demo_lib ''20240205093000'' ''v1'' other_case_row ?C = Inr b"
    using v by (simp add: evaluate_row_Inr)
  have c: "sod_required v"
    using v by (auto simp: eval_defs other_case_row_def same_person_row_def sample_row_def)
  have d: "rget other_case_row ''preparer'' = PStr ''j.lee''
      \<and> rget other_case_row ''approver'' = PStr ''J.Lee''"
    by (simp add: rget_def dget_def other_case_row_def same_person_row_def sample_row_def)
  have e: "''j.lee'' \<noteq> ''J.Lee''"
    by simp
  have "sod_pass v"
    using sod_check [OF v b, of "''j.lee''" "''J.Lee''"] c d e by blast
  then show "\<exists>v b. row_locals demo_lib other_case_row ?C = Inr v
        \<and> evaluate_row demo_lib ''20240205093000'' ''v1'' other_case_row ?C = Inr b
        \<and> rget other_case_row ''preparer'' = PStr ''j.lee''
        \<and> rget other_case_row ''approver'' = PStr ''J.Lee''
        \<and> sod_required v \<and> sod_pass v \<and> sod_violation b = False"
    using sod_check [OF v b] v b c d by blast
next
  let ?C = "crit_dict default_criteria"
  obtain v where v: "row_locals demo_lib padded_row ?C = Inr v"
    by (simp add: eval_defs padded_row_def same_person_row_def sample_row_def)
  obtain b where b: "evaluate_row demo_lib ''20240205093000'' ''v1'' padded_row ?C = Inr b"
    using v by (simp add: evaluate_row_Inr)
  have c: "sod_required v"
    using v by (auto simp: eval_defs padded_row_def same_person_row_def sample_row_def)
  have d: "rget padded_row ''preparer'' = PStr ''J.Lee ''
      \<and> rget padded_row ''approver'' = PStr ''J.Lee''"
    by (simp add: rget_def dget_def padded_row_def same_person_row_def sample_row_def)
  have e: "''J.Lee '' \<noteq> ''J.Lee''"
    by simp
  have "sod_pass v"
    using sod_check [OF v b, of "''J.Lee ''" "''J.Lee''"] c d e by blast
  then show "\<exists>v b. row_locals demo_lib padded_row ?C = Inr v
        \<and> evaluate_row demo_lib ''20240205093000'' ''v1'' padded_row ?C = Inr b
        \<and> rget padded_row ''preparer'' = PStr ''J.Lee ''
        \<and> rget padded_row ''approver'' = PStr ''J.Lee''
        \<and> sod_required v \<and> sod_pass v \<and> sod_violation b = False"
    using sod_check [OF v b] v b c d by blast
next
  let ?C = "crit_dict no_sod_criteria"
  obtain v where v: "row_locals demo_lib same_person_row ?C = Inr v"
    by (simp add: eval_defs same_person_row_def sample_row_def)
  obtain b where b: "evaluate_row demo_lib ''20240205093000'' ''v1'' same_person_row ?C = Inr b"
    using v by (simp add: evaluate_row_Inr)
  have c: "sod_required v = False"
    using v by (auto simp: eval_defs same_person_row_def sample_row_def)
  show "\<exists>v b. row_locals demo_lib same_person_row ?C = Inr v
        \<and> evaluate_row demo_lib ''20240205093000'' ''v1'' same_person_row ?C = Inr b
        \<and> sod_required v = False \<and> sod_pass v \<and> sod_violation b = False"
    using sod_check [OF v b] v b c by blast
qed

section \<open>The aging check and the running severity\<close>

lemma sev_rank_simps:
  "sev_rank ''low'' = 0" "sev_rank ''medium'' = 1" "sev_rank ''high'' = 2"
  by (simp_all add: sev_rank_def)

text \<open>
  C6. The count is \<^verbatim>\<open>int(r.get("items_over_aging_threshold") or 0)\<close> and the plan is
  \<^verbatim>\<open>to_bool(r.get("action_plan_present"))\<close>. The check passes exactly when the count
  is 0, or the criteria allow aged items with a plan and a plan is present. A passing
  check leaves failures and severity as they are. A failing check turns \<^verbatim>\<open>low\<close> into
  \<^verbatim>\<open>medium\<close>, leaves \<^verbatim>\<open>medium\<close> and \<^verbatim>\<open>high\<close> unchanged, and gives \<^verbatim>\<open>high\<close>
  only where the severity was \<^verbatim>\<open>high\<close> before. The severity of the result is the one
  after this last step, in both programs.
\<close>

theorem aging_check:
  assumes "row_locals L r crit = Inr v"
    and "evaluate_row L run_id cv r crit = Inr b"
    and "evaluate_row_app L r crit = Inr a"
  shows "py_int L (por (rget r ''items_over_aging_threshold'') (PInt 0)) = Inr (items_over v)
       \<and> plan v = to_bool (rget r ''action_plan_present'')
       \<and> allow_over_with_plan v =
            truthy (dget crit ''allow_items_over_threshold_with_plan'' (PBool True))
       \<and> (aging_pass v \<longleftrightarrow> items_over v = 0 \<or> (allow_over_with_plan v \<and> plan v))
       \<and> (aging_pass v \<longrightarrow> step_aging v st = st)
       \<and> (aging_pass v = False \<longrightarrow>
             snd (step_aging v (fs, ''low'')) = ''medium''
           \<and> snd (step_aging v (fs, ''medium'')) = ''medium''
           \<and> snd (step_aging v (fs, ''high'')) = ''high'')
       \<and> (snd (step_aging v st) = ''high'' \<longrightarrow> snd st = ''high'')
       \<and> severity b =
            snd (step_aging v (step_timely v (step_sod v (step_tieout L v ([], ''low'')))))
       \<and> severity a = severity b
       \<and> aged_items_flag b = (\<not> aging_pass v)
       \<and> aged_items_flag a = (\<not> aging_pass v)"
proof -
  note f = row_locals_fields [OF assms(1)]
  note g = batch_fields [OF assms(1,2)]
  note h = app_fields [OF assms(1,3)]
  have p: "aging_pass v \<longrightarrow> step_aging v st = st"
    by (simp add: step_aging_def)
  have q: "aging_pass v = False \<longrightarrow>
             snd (step_aging v (fs, ''low'')) = ''medium''
           \<and> snd (step_aging v (fs, ''medium'')) = ''medium''
           \<and> snd (step_aging v (fs, ''high'')) = ''high''"
    by (simp add: step_aging_def)
  have n: "snd (step_aging v st) = ''high'' \<longrightarrow> snd st = ''high''"
    by (simp add: step_aging_def)
  have s: "severity b =
      snd (step_aging v (step_timely v (step_sod v (step_tieout L v ([], ''low'')))))"
    using g(2) by (simp add: aggregate_def)
  have t: "severity a = severity b"
    using g(2) h(2) by simp
  show ?thesis
    using f(7,8,19,20) p q n s t g(6) h(6) by blast
qed

theorem aging_check_witness:
  "\<exists>v b a. row_locals demo_lib aged_row (crit_dict default_criteria) = Inr v
      \<and> evaluate_row demo_lib ''20240205093000'' ''v1'' aged_row (crit_dict default_criteria) = Inr b
      \<and> evaluate_row_app demo_lib aged_row (crit_dict default_criteria) = Inr a
      \<and> items_over v = 3 \<and> plan v = False \<and> allow_over_with_plan v
      \<and> aging_pass v = False \<and> aged_items_flag b \<and> aged_items_flag a
      \<and> snd (step_aging v ([], ''low'')) = ''medium''
      \<and> snd (step_aging v ([], ''high'')) = ''high''
      \<and> severity b = ''medium'' \<and> severity a = ''medium''"
proof -
  let ?C = "crit_dict default_criteria"
  have tb: "to_bool (PStr ''no'') = False"
    by code_simp
  obtain v where v: "row_locals demo_lib aged_row ?C = Inr v"
    by (simp add: eval_defs aged_row_def sample_row_def)
  obtain b where b: "evaluate_row demo_lib ''20240205093000'' ''v1'' aged_row ?C = Inr b"
    using v by (simp add: evaluate_row_Inr)
  obtain a where a: "evaluate_row_app demo_lib aged_row ?C = Inr a"
    using v by (simp add: evaluate_row_app_Inr)
  have c: "items_over v = 3 \<and> plan v = False \<and> allow_over_with_plan v
      \<and> tieout_pass v \<and> sod_pass v \<and> timely_pass v"
    using v tb by (auto simp: eval_defs aged_row_def sample_row_def)
  note t = aging_check [OF v b a, of "([], ''low'')" "[]"]
  have d: "aging_pass v = False"
    using t c by simp
  have e: "step_timely v (step_sod v (step_tieout demo_lib v ([], ''low''))) = ([], ''low'')"
    using c by (simp add: step_timely_def step_sod_def step_tieout_def)
  have s: "severity b = ''medium'' \<and> severity a = ''medium''"
    using t d e by simp
  show ?thesis
    using t v b a c d s by blast
qed

lemma step_tieout_sev:
  "snd (step_tieout L v (fs, sev)) = (if tieout_pass v then sev else ''high'')"
  by (simp add: step_tieout_def)

lemma step_sod_sev:
  "snd (step_sod v (fs, sev)) = (if sod_pass v then sev else ''high'')"
  by (simp add: step_sod_def)

lemma step_timely_sev:
  "snd (step_timely v (fs, sev)) =
     (if timely_pass v then sev else if sev \<noteq> ''high'' then ''medium'' else ''high'')"
  by (simp add: step_timely_def)

lemma step_aging_sev:
  "snd (step_aging v (fs, sev)) =
     (if aging_pass v then sev else if sev = ''low'' then ''medium'' else sev)"
  by (simp add: step_aging_def)

text \<open>
  Each step, started from one of the three severities, ends in one of them and does
  not go down in the order \<^verbatim>\<open>low\<close>, \<^verbatim>\<open>medium\<close>, \<^verbatim>\<open>high\<close>.
\<close>

lemma step_monotone:
  assumes "sev \<in> {''low'', ''medium'', ''high''}"
  shows "sev_rank sev \<le> sev_rank (snd (step_tieout L v (fs, sev)))"
    and "sev_rank sev \<le> sev_rank (snd (step_sod v (fs, sev)))"
    and "sev_rank sev \<le> sev_rank (snd (step_timely v (fs, sev)))"
    and "sev_rank sev \<le> sev_rank (snd (step_aging v (fs, sev)))"
    and "snd (step_tieout L v (fs, sev)) \<in> {''low'', ''medium'', ''high''}"
    and "snd (step_sod v (fs, sev)) \<in> {''low'', ''medium'', ''high''}"
    and "snd (step_timely v (fs, sev)) \<in> {''low'', ''medium'', ''high''}"
    and "snd (step_aging v (fs, sev)) \<in> {''low'', ''medium'', ''high''}"
  using assms
  by (auto simp: step_tieout_sev step_sod_sev step_timely_sev step_aging_sev sev_rank_def)

text \<open>
  C7. Within the evaluation of one record the severity starts at \<^verbatim>\<open>low\<close> and is
  updated by the tie-out, segregation of duties, timeliness and aging steps in this
  order; in the order \<^verbatim>\<open>low\<close> < \<^verbatim>\<open>medium\<close> < \<^verbatim>\<open>high\<close> no step lowers the value
  it finds, the value stays one of the three, and the value after the last step is the
  severity of the result. The same holds for each step started from any of the three
  severities.
\<close>

theorem severity_monotone:
  assumes "row_locals L r crit = Inr v"
    and "evaluate_row L run_id cv r crit = Inr b"
  shows "(let s1 = step_tieout L v ([], ''low'');
              s2 = step_sod v s1;
              s3 = step_timely v s2;
              s4 = step_aging v s3
          in sev_rank ''low'' \<le> sev_rank (snd s1)
           \<and> sev_rank (snd s1) \<le> sev_rank (snd s2)
           \<and> sev_rank (snd s2) \<le> sev_rank (snd s3)
           \<and> sev_rank (snd s3) \<le> sev_rank (snd s4)
           \<and> severity b = snd s4
           \<and> set [snd s1, snd s2, snd s3, snd s4] \<subseteq> {''low'', ''medium'', ''high''})
       \<and> sev_rank ''low'' < sev_rank ''medium'' \<and> sev_rank ''medium'' < sev_rank ''high''
       \<and> (sev \<in> {''low'', ''medium'', ''high''} \<longrightarrow>
             sev_rank sev \<le> sev_rank (snd (step_tieout L v (fs, sev)))
           \<and> sev_rank sev \<le> sev_rank (snd (step_sod v (fs, sev)))
           \<and> sev_rank sev \<le> sev_rank (snd (step_timely v (fs, sev)))
           \<and> sev_rank sev \<le> sev_rank (snd (step_aging v (fs, sev))))"
proof -
  define s1 where "s1 = step_tieout L v ([], ''low'')"
  define s2 where "s2 = step_sod v s1"
  define s3 where "s3 = step_timely v s2"
  define s4 where "s4 = step_aging v s3"
  have i1: "snd s1 \<in> {''low'', ''medium'', ''high''}"
    unfolding s1_def by (rule step_monotone(5)) simp
  have i2: "snd s2 \<in> {''low'', ''medium'', ''high''}"
    unfolding s2_def using step_monotone(6) [OF i1, of v "fst s1"] by simp
  have i3: "snd s3 \<in> {''low'', ''medium'', ''high''}"
    unfolding s3_def using step_monotone(7) [OF i2, of v "fst s2"] by simp
  have i4: "snd s4 \<in> {''low'', ''medium'', ''high''}"
    unfolding s4_def using step_monotone(8) [OF i3, of v "fst s3"] by simp
  have m1: "sev_rank ''low'' \<le> sev_rank (snd s1)"
    by (simp add: sev_rank_def)
  have m2: "sev_rank (snd s1) \<le> sev_rank (snd s2)"
    unfolding s2_def using step_monotone(2) [OF i1, of v "fst s1"] by simp
  have m3: "sev_rank (snd s2) \<le> sev_rank (snd s3)"
    unfolding s3_def using step_monotone(3) [OF i2, of v "fst s2"] by simp
  have m4: "sev_rank (snd s3) \<le> sev_rank (snd s4)"
    unfolding s4_def using step_monotone(4) [OF i3, of v "fst s3"] by simp
  have e: "severity b = snd s4"
    using batch_fields(2) [OF assms]
    by (simp add: aggregate_def s4_def s3_def s2_def s1_def)
  have o: "sev_rank ''low'' < sev_rank ''medium'' \<and> sev_rank ''medium'' < sev_rank ''high''"
    by (simp add: sev_rank_def)
  have g: "sev \<in> {''low'', ''medium'', ''high''} \<longrightarrow>
             sev_rank sev \<le> sev_rank (snd (step_tieout L v (fs, sev)))
           \<and> sev_rank sev \<le> sev_rank (snd (step_sod v (fs, sev)))
           \<and> sev_rank sev \<le> sev_rank (snd (step_timely v (fs, sev)))
           \<and> sev_rank sev \<le> sev_rank (snd (step_aging v (fs, sev)))"
    using step_monotone(1) [of sev L v fs] step_monotone(2) [of sev v fs]
      step_monotone(3) [of sev v fs] step_monotone(4) [of sev v fs] by blast
  have "sev_rank ''low'' \<le> sev_rank (snd s1)
           \<and> sev_rank (snd s1) \<le> sev_rank (snd s2)
           \<and> sev_rank (snd s2) \<le> sev_rank (snd s3)
           \<and> sev_rank (snd s3) \<le> sev_rank (snd s4)
           \<and> severity b = snd s4
           \<and> set [snd s1, snd s2, snd s3, snd s4] \<subseteq> {''low'', ''medium'', ''high''}"
    using i1 i2 i3 i4 m1 m2 m3 m4 e by simp
  then show ?thesis
    using o g unfolding Let_def s4_def s3_def s2_def s1_def by blast
qed

theorem severity_monotone_witness:
  "\<exists>v b. row_locals demo_lib late_row (crit_dict strict_criteria) = Inr v
      \<and> evaluate_row demo_lib ''20240211080000'' ''v1'' late_row (crit_dict strict_criteria) = Inr b
      \<and> tieout_pass v = False \<and> sod_pass v \<and> timely_pass v = False \<and> aging_pass v
      \<and> snd (step_tieout demo_lib v ([], ''low'')) = ''high''
      \<and> sev_rank ''high'' \<le> sev_rank (snd (step_timely v ([], ''high'')))
      \<and> sev_rank ''low'' \<le> sev_rank (snd (step_timely v ([], ''low'')))
      \<and> snd (step_timely v ([], ''low'')) = ''medium''
      \<and> severity b = ''high''"
proof -
  let ?C = "crit_dict strict_criteria"
  obtain v where v: "row_locals demo_lib late_row ?C = Inr v"
    by (simp add: eval_defs late_row_def sample_row_def)
  obtain b where b: "evaluate_row demo_lib ''20240211080000'' ''v1'' late_row ?C = Inr b"
    using v by (simp add: evaluate_row_Inr)
  have c: "tieout_pass v = False \<and> sod_pass v \<and> timely_pass v = False \<and> aging_pass v"
    using v by (auto simp: eval_defs late_row_def sample_row_def)
  have h: "''high'' \<in> {''low'', ''medium'', ''high''}" and l: "''low'' \<in> {''low'', ''medium'', ''high''}"
    by simp_all
  have t1: "snd (step_tieout demo_lib v ([], ''low'')) = ''high''"
    using c by (simp add: step_tieout_sev)
  have t3: "snd (step_timely v ([], ''low'')) = ''medium''"
    using c by (simp add: step_timely_sev)
  have s: "severity b = ''high''"
    using severity_monotone [OF v b] c
    by (simp add: Let_def step_tieout_def step_sod_def step_timely_def step_aging_def)
  have m: "sev_rank ''high'' \<le> sev_rank (snd (step_timely v ([], ''high'')))"
    using severity_monotone [OF v b, of "''high''" "[]"] h by blast
  have n: "sev_rank ''low'' \<le> sev_rank (snd (step_timely v ([], ''low'')))"
    using severity_monotone [OF v b, of "''low''" "[]"] l by blast
  show ?thesis
    using v b c t1 t3 s m n by blast
qed

section \<open>Missing and blank names\<close>

lemma rget_upd: "rget (r(k \<mapsto> x)) k' = (if k' = k then x else rget r k')"
  by (simp add: rget_def dget_def)

text \<open>
  Replacing both names by one and the same text changes the local variables in the two
  names and in the outcome of the check only; where the check had failed, the entry
  stays the same.
\<close>

lemma same_name_locals:
  assumes "row_locals L r crit = Inr v"
  shows "row_locals L (r(''preparer'' \<mapsto> PStr s, ''approver'' \<mapsto> PStr s)) crit
           = Inr (v\<lparr>preparer := s, approver := s,
                    sod_pass := (if sod_required v then False else True)\<rparr>)"
  using assms unfolding row_locals_def Let_def bnd_Inr
  by (auto simp: rget_upd py_str_or_empty)

lemma build_result_same_name:
  assumes "sod_pass v = False"
  shows "build_result L (r(''preparer'' \<mapsto> PStr s, ''approver'' \<mapsto> PStr s))
           (v\<lparr>preparer := s, approver := s, sod_pass := False\<rparr>) = build_result L r v"
  using assms
  by (simp add: build_result_def Let_def aggregate_def step_tieout_def step_sod_def
      step_timely_def step_aging_def rget_upd)

text \<open>
  Where the columns of preparer and approver are missing (\<^verbatim>\<open>r.get\<close> answers
  \<^verbatim>\<open>None\<close> for both), both names are the empty string, the check fails when it is
  required, the violation flag is set and the severity is \<^verbatim>\<open>high\<close>, in both programs.
  The entry is the very entry of the same row with one and the same text in both cells.
  The timeliness check, in contrast, passes when the cell of one of its dates is
  missing.
\<close>

lemma missing_columns_fail_sod:
  assumes "row_locals L r crit = Inr v"
    and "evaluate_row L run_id cv r crit = Inr b"
    and "evaluate_row_app L r crit = Inr a"
    and "rget r ''preparer'' = PNone"
    and "rget r ''approver'' = PNone"
    and "truthy (dget crit ''require_sod'' (PBool True))"
  shows "preparer v = [] \<and> approver v = []
       \<and> sod_pass v = False
       \<and> sod_violation b \<and> severity b = ''high'' \<and> status b = ''fail''
       \<and> sod_violation a \<and> severity a = ''high'' \<and> status a = ''fail''
       \<and> evaluate_row L run_id cv (r(''preparer'' \<mapsto> PStr s, ''approver'' \<mapsto> PStr s)) crit
           = Inr b
       \<and> evaluate_row_app L (r(''preparer'' \<mapsto> PStr s, ''approver'' \<mapsto> PStr s)) crit = Inr a
       \<and> (rget r ''approved_on'' = PNone \<or> rget r ''period_end_date'' = PNone \<longrightarrow>
             timely_pass v)"
proof -
  note f = row_locals_fields [OF assms(1)]
  note g = batch_fields [OF assms(1,2)]
  note h = app_fields [OF assms(1,3)]
  have p: "preparer v = []" "approver v = []"
    using f(4,5) assms(4,5) by (simp_all add: por_def truthy_def py_str_def)
  have req: "sod_required v"
    using f(14) assms(6) by simp
  have q: "sod_pass v = False"
    using f(15) p req by simp
  have hb: "sod_violation b \<and> severity b = ''high'' \<and> status b = ''fail''"
    using g(1,2,5) q by (simp add: aggregate_severity status_of_def aggregate_failures_empty)
  have ha: "sod_violation a \<and> severity a = ''high'' \<and> status a = ''fail''"
    using h(1,2,5) q by (simp add: aggregate_severity status_of_def aggregate_failures_empty)
  let ?r = "r(''preparer'' \<mapsto> PStr s, ''approver'' \<mapsto> PStr s)"
  let ?v = "v\<lparr>preparer := s, approver := s, sod_pass := False\<rparr>"
  have l: "row_locals L ?r crit = Inr ?v"
    using same_name_locals [OF assms(1), of s] req by simp
  have e: "build_result L ?r ?v = build_result L r v"
    by (rule build_result_same_name [OF q])
  have bv: "b = result.extend (build_result L r v) (batch_result.fields run_id cv)"
    using assms(1,2) by (auto simp: evaluate_row_Inr)
  have av: "a = build_result L r v"
    using assms(1,3) by (auto simp: evaluate_row_app_Inr)
  have eb: "evaluate_row L run_id cv ?r crit = Inr b"
    using l e bv by (simp add: evaluate_row_Inr)
  have ea: "evaluate_row_app L ?r crit = Inr a"
    using l e av by (simp add: evaluate_row_app_Inr)
  have t: "rget r ''approved_on'' = PNone \<or> rget r ''period_end_date'' = PNone \<longrightarrow>
      timely_pass v"
    using f(1,6,18) by (auto simp: parse_date_safe_absent timeliness_None)
  show ?thesis
    using p q hb ha eb ea t by blast
qed

text \<open>
  C10, as stated: absent cells of preparer and approver both become the empty string,
  so that the required check fails. A blank cell is NaN, which is truthy:
  \<^verbatim>\<open>str(r.get(...) or "")\<close> keeps it and gives the name \<^verbatim>\<open>nan\<close>. With no preparer
  cell and a blank approver cell the names are the empty string and \<^verbatim>\<open>nan\<close>: the
  check passes, no violation is flagged and the status is \<^verbatim>\<open>pass\<close>, in both programs.
  With both cells blank the check fails, on the two names \<^verbatim>\<open>nan\<close>.
\<close>

theorem blank_name_cells:
  "(\<exists>v b a. row_locals L blank_approver_row (crit_dict default_criteria) = Inr v
       \<and> evaluate_row L now cv blank_approver_row (crit_dict default_criteria) = Inr b
       \<and> evaluate_row_app L blank_approver_row (crit_dict default_criteria) = Inr a
       \<and> rget blank_approver_row ''preparer'' = PNone
       \<and> rget blank_approver_row ''approver'' = PFloat NaN
       \<and> sod_required v \<and> preparer v = [] \<and> approver v = ''nan'' \<and> sod_pass v
       \<and> sod_violation b = False \<and> severity b = ''low'' \<and> status b = ''pass''
       \<and> sod_violation a = False \<and> severity a = ''low'' \<and> status a = ''pass'')
 \<and> (\<exists>v b. row_locals L both_blank_row (crit_dict default_criteria) = Inr v
       \<and> evaluate_row L now cv both_blank_row (crit_dict default_criteria) = Inr b
       \<and> sod_required v \<and> preparer v = ''nan'' \<and> approver v = ''nan''
       \<and> sod_pass v = False \<and> sod_violation b \<and> status b = ''fail'')"
proof (intro conjI)
  let ?C = "crit_dict default_criteria"
  obtain v where v: "row_locals L blank_approver_row ?C = Inr v"
    by (simp add: eval_defs blank_approver_row_def sample_row_def)
  obtain b where b: "evaluate_row L now cv blank_approver_row ?C = Inr b"
    using v by (simp add: evaluate_row_Inr)
  obtain a where a: "evaluate_row_app L blank_approver_row ?C = Inr a"
    using v by (simp add: evaluate_row_app_Inr)
  have c: "sod_required v \<and> preparer v = [] \<and> approver v = ''nan'' \<and> sod_pass v
      \<and> tieout_pass v \<and> timely_pass v \<and> aging_pass v"
    using v by (auto simp: eval_defs blank_approver_row_def sample_row_def)
  have d: "rget blank_approver_row ''preparer'' = PNone
      \<and> rget blank_approver_row ''approver'' = PFloat NaN"
    by (simp add: rget_def dget_def blank_approver_row_def)
  have e: "sod_violation b = False \<and> severity b = ''low'' \<and> status b = ''pass''"
    using batch_fields(1,2,5) [OF v b] c
    by (simp add: aggregate_severity status_of_def aggregate_failures_empty)
  have f: "sod_violation a = False \<and> severity a = ''low'' \<and> status a = ''pass''"
    using app_fields(1,2,5) [OF v a] c
    by (simp add: aggregate_severity status_of_def aggregate_failures_empty)
  show "\<exists>v b a. row_locals L blank_approver_row ?C = Inr v
       \<and> evaluate_row L now cv blank_approver_row ?C = Inr b
       \<and> evaluate_row_app L blank_approver_row ?C = Inr a
       \<and> rget blank_approver_row ''preparer'' = PNone
       \<and> rget blank_approver_row ''approver'' = PFloat NaN
       \<and> sod_required v \<and> preparer v = [] \<and> approver v = ''nan'' \<and> sod_pass v
       \<and> sod_violation b = False \<and> severity b = ''low'' \<and> status b = ''pass''
       \<and> sod_violation a = False \<and> severity a = ''low'' \<and> status a = ''pass''"
    using v b a c d e f by blast
next
  let ?C = "crit_dict default_criteria"
  obtain v where v: "row_locals L both_blank_row ?C = Inr v"
    by (simp add: eval_defs both_blank_row_def sample_row_def)
  obtain b where b: "evaluate_row L now cv both_blank_row ?C = Inr b"
    using v by (simp add: evaluate_row_Inr)
  have c: "sod_required v \<and> preparer v = ''nan'' \<and> approver v = ''nan''
      \<and> sod_pass v = False"
    using v by (auto simp: eval_defs both_blank_row_def sample_row_def)
  have e: "sod_violation b \<and> status b = ''fail''"
    using batch_fields(1,2,5) [OF v b] c
    by (simp add: aggregate_severity status_of_def aggregate_failures_empty)
  show "\<exists>v b. row_locals L both_blank_row ?C = Inr v
       \<and> evaluate_row L now cv both_blank_row ?C = Inr b
       \<and> sod_required v \<and> preparer v = ''nan'' \<and> approver v = ''nan''
       \<and> sod_pass v = False \<and> sod_violation b \<and> status b = ''fail''"
    using v b c e by blast
qed

theorem blank_name_cells_witness:
  "\<exists>b. evaluate_row demo_lib ''20240205093000'' ''v1'' blank_approver_row
         (crit_dict default_criteria) = Inr b
      \<and> rget blank_approver_row ''preparer'' = PNone
      \<and> rget blank_approver_row ''approver'' = PFloat NaN
      \<and> truthy (dget (crit_dict default_criteria) ''require_sod'' (PBool True))
      \<and> sod_violation b = False \<and> status b = ''pass''"
proof -
  have t: "truthy (dget (crit_dict default_criteria) ''require_sod'' (PBool True))"
    by (simp add: eval_defs)
  show ?thesis
    using blank_name_cells [of demo_lib "''20240205093000''" "''v1''"] t by blast
qed

section \<open>Boolean coercion\<close>













section \<open>The loop over the rows\<close>









end
